theory Spec2Isabelle
  imports Complex_Main "HOL-Library.AList" "HOL-Library.Multiset"
begin

section \<open>Python built-ins used by the monitoring core\<close>

text \<open>
  Strings are \<open>char list\<close>. \<open>py_lower\<close> is \<open>str.lower\<close> on ASCII letters,
  \<open>py_in\<close> is the substring test \<open>a in b\<close>, \<open>truthy\<close> is the truth value
  of an optional string (\<open>None\<close> and \<open>''\<close> are both false), and \<open>get_or\<close> is
  \<open>dict.get(key, default)\<close> on a field that may be absent.
\<close>

definition py_lower_char :: "char \<Rightarrow> char" where
  "py_lower_char c =
     (let n = (of_char c :: nat)
      in if 65 \<le> n \<and> n \<le> 90 then char_of (n + 32) else c)"

definition py_lower :: "string \<Rightarrow> string" where
  "py_lower s = map py_lower_char s"

fun is_prefix_of :: "string \<Rightarrow> string \<Rightarrow> bool" where
  "is_prefix_of [] ys = True"
| "is_prefix_of (x # xs) [] = False"
| "is_prefix_of (x # xs) (y # ys) = (x = y \<and> is_prefix_of xs ys)"

fun py_in :: "string \<Rightarrow> string \<Rightarrow> bool" where
  "py_in a [] = (a = [])"
| "py_in a (y # ys) = (is_prefix_of a (y # ys) \<or> py_in a ys)"

definition truthy :: "string option \<Rightarrow> bool" where
  "truthy v = (case v of None \<Rightarrow> False | Some s \<Rightarrow> s \<noteq> [])"

definition get_or :: "'a option \<Rightarrow> 'a \<Rightarrow> 'a" where
  "get_or v d = (case v of None \<Rightarrow> d | Some x \<Rightarrow> x)"

section \<open>Change detector: data model\<close>

text \<open>
  The scan snapshot (\<open>result_summary\<close>) is a JSON object; each sub-object becomes a
  record whose optional keys are \<open>option\<close> fields, and a JSON object used as a
  dictionary (\<open>security_headers\<close>, the performance metrics) is an association list in
  insertion order. Numbers are exact rationals: floating-point rounding is not modelled.
\<close>

record technology =
  tech_name :: string
  tech_version :: "string option"
  tech_category :: "string option"
  tech_confidence :: "rat option"
  tech_detection_method :: "string option"
  tech_indicators :: "string list option"

record technologies =
  detected :: "technology list"
  tech_scan_timestamp :: "string option"

record performance =
  perf_metrics :: "(string \<times> rat) list"
  perf_issues :: "string list"
  perf_scan_timestamp :: "string option"

record vulnerability =
  vuln_id :: "string option"
  vuln_type :: "string option"
  vuln_severity :: "string option"
  vuln_description :: "string option"
  vuln_cve_ids :: "string list option"
  vuln_remediation :: "string option"

record ssl_info =
  fingerprint :: "string option"

record security =
  vulnerabilities :: "vulnerability list"
  security_headers :: "(string \<times> string) list"
  ssl :: ssl_info

record content =
  title :: "string option"
  meta_description :: "string option"
  content_hash :: "string option"

record infrastructure =
  server_software :: "string option"
  ip_address :: "string option"
  cdn_providers :: "string list"

record scan =
  scan_technologies :: technologies
  scan_performance :: performance
  scan_security :: security
  scan_content :: content
  scan_infrastructure :: infrastructure
  scan_timestamp :: "string option"
  scan_scan_id :: "string option"

text \<open>
  A change is the dictionary the detector appends to its list. \<open>ctype\<close> is its
  \<open>'type'\<close> key and \<open>change_type\<close> its \<open>'change_type'\<close> key; a key that a
  branch of the detector does not write is \<open>None\<close>, which is what \<open>change.get(key)\<close>
  returns for it.
\<close>

datatype change_kind =
  technology_change | performance_change | security_change | content_change
  | infrastructure_change

datatype change_subtype =
  added | removed | version_changed
  | issue_added | issue_resolved
  | vulnerability_added | vulnerability_fixed | security_header_changed
  | ssl_certificate_changed
  | title_changed | meta_description_changed | content_hash_changed
  | server_software_changed | ip_address_changed | cdn_changed

datatype evidence =
  NoEvidence
  | AddedEvidence "string option" "string list"
  | RemovedEvidence "string option" "string option"
  | VersionEvidence string string bool
  | ThresholdEvidence rat "string option" "string option"
  | IssueEvidence string
  | VulnerabilityEvidence vulnerability "string list"
  | FixedEvidence vulnerability
  | HeaderEvidence string string "string option"
  | CertificateEvidence ssl_info ssl_info
  | TitleEvidence string string rat
  | DescriptionEvidence string string rat
  | HashEvidence string string
  | ServerEvidence string string
  | IpEvidence string string
  | CdnEvidence "string list" "string list" "string list" "string list"

record change =
  ctype :: change_kind
  change_type :: "change_subtype option"
  technology_name :: "string option"
  technology_category :: "string option"
  old_version :: "string option"
  new_version :: "string option"
  confidence :: "rat option"
  impact_assessment :: "string option"
  metric_name :: "string option"
  metric_display_name :: "string option"
  unit :: "string option"
  old_value :: "rat option"
  new_value :: "rat option"
  change_percent :: "rat option"
  threshold_exceeded :: "bool option"
  severity :: "string option"
  is_degradation :: "bool option"
  issue :: "string option"
  vulnerability_type :: "string option"
  description :: "string option"
  remediation_advice :: "string option"
  change_evidence :: evidence

definition new_change :: "change_kind \<Rightarrow> change" where
  "new_change k =
     \<lparr>ctype = k, change_type = None, technology_name = None, technology_category = None,
      old_version = None, new_version = None, confidence = None, impact_assessment = None,
      metric_name = None, metric_display_name = None, unit = None, old_value = None,
      new_value = None, change_percent = None, threshold_exceeded = None, severity = None,
      is_degradation = None, issue = None, vulnerability_type = None, description = None,
      remediation_advice = None, change_evidence = NoEvidence\<rparr>"

text \<open>
  \<open>py_strip\<close> is \<open>str.strip()\<close>, \<open>split_on\<close> is \<open>str.split(sep)\<close> for a one-character
  separator (it always returns at least one part), and \<open>py_int\<close> is \<open>int(s)\<close> on a
  string: surrounding whitespace, an optional sign, then decimal digits in which single
  underscores may separate digits; \<open>None\<close> stands for \<open>ValueError\<close>. \<open>py_set\<close> lists
  the elements of \<open>set(xs)\<close>; Python leaves the iteration order of a set unspecified and
  the model takes the order of last occurrence.
\<close>

definition is_space :: "char \<Rightarrow> bool" where
  "is_space c = (let n = (of_char c :: nat) in (9 \<le> n \<and> n \<le> 13) \<or> (28 \<le> n \<and> n \<le> 32))"

definition py_strip :: "string \<Rightarrow> string" where
  "py_strip s = rev (dropWhile is_space (rev (dropWhile is_space s)))"

fun split_on :: "char \<Rightarrow> string \<Rightarrow> string list" where
  "split_on d [] = [[]]"
| "split_on d (c # cs) =
     (if c = d then [] # split_on d cs
      else (case split_on d cs of [] \<Rightarrow> [[c]] | p # ps \<Rightarrow> (c # p) # ps))"

definition is_digit :: "char \<Rightarrow> bool" where
  "is_digit c = (let n = (of_char c :: nat) in 48 \<le> n \<and> n \<le> 57)"

definition digit_val :: "char \<Rightarrow> nat" where
  "digit_val c = of_char c - 48"

fun py_digits :: "nat \<Rightarrow> bool \<Rightarrow> string \<Rightarrow> nat option" where
  "py_digits acc after_digit [] = (if after_digit then Some acc else None)"
| "py_digits acc after_digit (c # cs) =
     (if is_digit c then py_digits (acc * 10 + digit_val c) True cs
      else if c = CHR ''_'' \<and> after_digit then py_digits acc False cs
      else None)"

definition py_int :: "string \<Rightarrow> int option" where
  "py_int s =
     (case py_strip s of
        [] \<Rightarrow> None
      | c # cs \<Rightarrow>
          if c = CHR ''-'' then map_option (\<lambda>n. - int n) (py_digits 0 False cs)
          else if c = CHR ''+'' then map_option int (py_digits 0 False cs)
          else map_option int (py_digits 0 False (c # cs)))"

definition py_set :: "'a list \<Rightarrow> 'a list" where
  "py_set xs = remdups xs"

fun index_of :: "'a \<Rightarrow> 'a list \<Rightarrow> nat option" where
  "index_of x [] = None"
| "index_of x (y # ys) = (if x = y then Some 0 else map_option Suc (index_of x ys))"

section \<open>Change detector: technology changes\<close>

text \<open>
  The two registries the detector loads at construction time
  (\<open>_load_noise_filters\<close>, \<open>_load_technology_importance\<close>).
\<close>

definition ignore_minor_updates :: "string list" where
  "ignore_minor_updates =
     [''google-analytics'', ''gtag'', ''facebook-pixel'', ''jquery'', ''bootstrap'',
      ''font-awesome'']"

definition noisy_technologies :: "string list" where
  "noisy_technologies =
     [''google-analytics'', ''gtag'', ''googletagmanager'', ''facebook-pixel'', ''hotjar'',
      ''mixpanel'']"

definition technology_importance :: "(string \<times> string) list" where
  "technology_importance =
     [(''apache'', ''critical''), (''nginx'', ''critical''), (''mysql'', ''critical''),
      (''postgresql'', ''critical''), (''redis'', ''critical''), (''mongodb'', ''critical''),
      (''react'', ''high''), (''vue'', ''high''), (''angular'', ''high''),
      (''node.js'', ''high''), (''express'', ''high''), (''django'', ''high''),
      (''flask'', ''high''), (''rails'', ''high''),
      (''jquery'', ''medium''), (''bootstrap'', ''medium''), (''webpack'', ''medium''),
      (''google-analytics'', ''low''), (''gtag'', ''low''), (''facebook-pixel'', ''low'')]"

definition impact_levels :: "string list" where
  "impact_levels = [''low'', ''medium'', ''high'', ''critical'']"

text \<open>
  \<open>parse_version\<close> is the comprehension \<open>[int(x) for x in version.split('.')]\<close>;
  \<open>None\<close> stands for the \<open>ValueError\<close> that the callers catch.
\<close>

definition parse_version :: "string \<Rightarrow> int list option" where
  "parse_version v = those (map py_int (split_on CHR ''.'' v))"

text \<open>
  \<open>_is_significant_version_change\<close>. The first test returns as soon as both lists
  are non-empty, which they always are, so the test on the minor component below it is
  never reached.
\<close>

definition is_significant_version_change :: "string \<Rightarrow> string \<Rightarrow> bool" where
  "is_significant_version_change old_v new_v =
     (case parse_version old_v of
        None \<Rightarrow> True
      | Some old_parts \<Rightarrow>
          (case parse_version new_v of
             None \<Rightarrow> True
           | Some new_parts \<Rightarrow>
               if length old_parts > 0 \<and> length new_parts > 0
               then hd old_parts \<noteq> hd new_parts
               else if length old_parts > 1 \<and> length new_parts > 1
               then old_parts ! 1 \<noteq> new_parts ! 1
               else True))"

definition is_minor_version_change :: "string \<Rightarrow> string \<Rightarrow> bool" where
  "is_minor_version_change old_v new_v =
     (case parse_version old_v of
        None \<Rightarrow> False
      | Some old_parts \<Rightarrow>
          (case parse_version new_v of
             None \<Rightarrow> False
           | Some new_parts \<Rightarrow>
               length old_parts \<ge> 3 \<and> length new_parts \<ge> 3
               \<and> old_parts ! 0 = new_parts ! 0
               \<and> old_parts ! 1 = new_parts ! 1
               \<and> old_parts ! 2 \<noteq> new_parts ! 2))"

definition major_of :: "string \<Rightarrow> int option" where
  "major_of v = (case split_on CHR ''.'' v of [] \<Rightarrow> None | p # ps \<Rightarrow> py_int p)"

definition is_major_version_change :: "string \<Rightarrow> string \<Rightarrow> bool" where
  "is_major_version_change old_v new_v =
     (case major_of old_v of
        None \<Rightarrow> False
      | Some old_major \<Rightarrow>
          (case major_of new_v of
             None \<Rightarrow> False
           | Some new_major \<Rightarrow> old_major \<noteq> new_major))"

fun upgrade_parts :: "int list \<Rightarrow> int list \<Rightarrow> bool" where
  "upgrade_parts (a # as) (b # bs) =
     (if b > a then True else if b < a then False else upgrade_parts as bs)"
| "upgrade_parts as bs = (length bs > length as)"

definition is_version_upgrade :: "string \<Rightarrow> string \<Rightarrow> bool" where
  "is_version_upgrade old_v new_v =
     (case parse_version old_v of
        None \<Rightarrow> True
      | Some old_parts \<Rightarrow>
          (case parse_version new_v of
             None \<Rightarrow> True
           | Some new_parts \<Rightarrow> upgrade_parts old_parts new_parts))"

definition assess_tech_impact :: "string \<Rightarrow> string" where
  "assess_tech_impact name = get_or (map_of technology_importance (py_lower name)) ''medium''"

definition assess_version_impact :: "string \<Rightarrow> string \<Rightarrow> string \<Rightarrow> string" where
  "assess_version_impact name old_v new_v =
     (let base_impact = assess_tech_impact name
      in if is_major_version_change old_v new_v
         then (let current_idx = get_or (index_of base_impact impact_levels) 1
               in impact_levels ! min (current_idx + 1) (length impact_levels - 1))
         else base_impact)"

text \<open>
  \<open>first_named\<close> is \<open>next(t for t in detected if t['name'] == name)\<close>; \<open>None\<close>
  stands for \<open>StopIteration\<close>, which the enclosing \<open>try\<close> turns into an empty result.
\<close>

definition first_named :: "string \<Rightarrow> technology list \<Rightarrow> technology option" where
  "first_named name ts = find (\<lambda>t. tech_name t = name) ts"

definition added_change :: "string \<Rightarrow> technology \<Rightarrow> change" where
  "added_change name tech_data =
     (new_change technology_change)
       \<lparr>change_type := Some added,
        technology_name := Some name,
        technology_category := Some (get_or (tech_category tech_data) ''unknown''),
        new_version := tech_version tech_data,
        confidence := Some (get_or (tech_confidence tech_data) 1),
        impact_assessment := Some (assess_tech_impact name),
        change_evidence :=
          AddedEvidence (tech_detection_method tech_data) (get_or (tech_indicators tech_data) [])\<rparr>"

definition removed_change :: "string option \<Rightarrow> string \<Rightarrow> technology \<Rightarrow> change" where
  "removed_change last_seen name tech_data =
     (new_change technology_change)
       \<lparr>change_type := Some removed,
        technology_name := Some name,
        technology_category := Some (get_or (tech_category tech_data) ''unknown''),
        old_version := tech_version tech_data,
        confidence := Some 1,
        impact_assessment := Some (assess_tech_impact name),
        change_evidence := RemovedEvidence last_seen (tech_detection_method tech_data)\<rparr>"

definition version_change :: "string \<Rightarrow> technology \<Rightarrow> technology \<Rightarrow> string \<Rightarrow> string \<Rightarrow> change" where
  "version_change name old_data new_data old_v new_v =
     (new_change technology_change)
       \<lparr>change_type := Some version_changed,
        technology_name := Some name,
        technology_category := Some (get_or (tech_category new_data) ''unknown''),
        old_version := Some old_v,
        new_version := Some new_v,
        confidence := Some (min (get_or (tech_confidence old_data) 1)
                                (get_or (tech_confidence new_data) 1)),
        impact_assessment := Some (assess_version_impact name old_v new_v),
        change_evidence := VersionEvidence old_v new_v (is_version_upgrade old_v new_v)\<rparr>"

text \<open>
  One pass of the third loop of \<open>_detect_technology_changes\<close>: the changes (none or
  one) for a name present in both snapshots.
\<close>

definition version_changes_for :: "technology list \<Rightarrow> technology list \<Rightarrow> string \<Rightarrow> change list option" where
  "version_changes_for old_ts new_ts name =
     (case first_named name old_ts of
        None \<Rightarrow> None
      | Some old_data \<Rightarrow>
          (case first_named name new_ts of
             None \<Rightarrow> None
           | Some new_data \<Rightarrow>
               (let old_v = get_or (tech_version old_data) [];
                    new_v = get_or (tech_version new_data) []
                in if old_v \<noteq> [] \<and> new_v \<noteq> [] \<and> old_v \<noteq> new_v
                      \<and> is_significant_version_change old_v new_v
                   then Some [version_change name old_data new_data old_v new_v]
                   else Some [])))"

definition technology_changes_raw :: "technologies \<Rightarrow> technologies \<Rightarrow> change list option" where
  "technology_changes_raw old_tech new_tech =
     (let old_names = py_set (map tech_name (detected old_tech));
          new_names = py_set (map tech_name (detected new_tech));
          added_cs = those (map (\<lambda>n. map_option (added_change n) (first_named n (detected new_tech)))
                        (filter (\<lambda>n. n \<notin> set old_names) new_names));
          removed_cs = those (map (\<lambda>n. map_option (removed_change (tech_scan_timestamp old_tech) n)
                                           (first_named n (detected old_tech)))
                        (filter (\<lambda>n. n \<notin> set new_names) old_names));
          version_cs = those (map (version_changes_for (detected old_tech) (detected new_tech))
                        (filter (\<lambda>n. n \<in> set new_names) old_names))
      in case added_cs of
           None \<Rightarrow> None
         | Some a \<Rightarrow>
             (case removed_cs of
                None \<Rightarrow> None
              | Some r \<Rightarrow>
                  (case version_cs of
                     None \<Rightarrow> None
                   | Some v \<Rightarrow> Some (a @ r @ concat v))))"

text \<open>\<open>_detect_technology_changes\<close>: any exception inside the body gives the empty list.\<close>

definition detect_technology_changes :: "technologies \<Rightarrow> technologies \<Rightarrow> change list" where
  "detect_technology_changes old_tech new_tech =
     (case technology_changes_raw old_tech new_tech of None \<Rightarrow> [] | Some cs \<Rightarrow> cs)"

text \<open>
  Two notions used to state what is reported for one technology: the
  \<open>version_changed\<close> entries for a name within a list of changes, and the test of
  \<open>_is_noise\<close> on a name (its lower-cased form contains a noisy name).
\<close>

definition reported_version_changes :: "change list \<Rightarrow> string \<Rightarrow> change list" where
  "reported_version_changes cs name =
     filter (\<lambda>c. change_type c = Some version_changed \<and> technology_name c = Some name) cs"

definition name_is_noisy :: "string \<Rightarrow> bool" where
  "name_is_noisy name = list_ex (\<lambda>noisy. py_in noisy (py_lower name)) noisy_technologies"

section \<open>Change detector: security changes\<close>

text \<open>
  \<open>_assess_header_change_severity\<close>: a header of the critical set is \<open>critical\<close> when
  its old value is non-empty and the new one is missing or empty, \<open>medium\<close> otherwise;
  any other header is \<open>low\<close>.
\<close>

definition critical_headers :: "string list" where
  "critical_headers =
     [''strict-transport-security'', ''content-security-policy'', ''x-frame-options'']"

definition assess_header_change_severity :: "string \<Rightarrow> string \<Rightarrow> string option \<Rightarrow> string" where
  "assess_header_change_severity header old_v new_v =
     (if py_lower header \<in> set critical_headers
      then (if old_v \<noteq> [] \<and> \<not> truthy new_v then ''critical'' else ''medium'')
      else ''low'')"

text \<open>
  The header loop of \<open>_detect_security_changes\<close> runs over \<open>old_headers.items()\<close> and
  looks each name up in the new map with \<open>new_headers.get(header)\<close>.
\<close>

definition header_change :: "string \<Rightarrow> string \<Rightarrow> string option \<Rightarrow> change" where
  "header_change header old_v new_v =
     (new_change security_change)
       \<lparr>change_type := Some security_header_changed,
        description := Some (''Security header '' @ [CHR 0x27] @ header @ [CHR 0x27] @ '' changed''),
        severity := Some (assess_header_change_severity header old_v new_v),
        change_evidence := HeaderEvidence header old_v new_v\<rparr>"

fun header_changes :: "(string \<times> string) list \<Rightarrow> (string \<times> string) list \<Rightarrow> change list" where
  "header_changes [] new_headers = []"
| "header_changes ((header, old_v) # rest) new_headers =
     (if map_of new_headers header \<noteq> Some old_v
      then header_change header old_v (map_of new_headers header) # header_changes rest new_headers
      else header_changes rest new_headers)"

text \<open>
  The vulnerability dictionaries are keyed by \<open>v.get('id', v.get('type', ''))\<close>; a later
  entry with the same key replaces the value and keeps the first position. The two set
  differences are iterated in the order of these keys (Python leaves the order of a set
  unspecified).
\<close>

definition vuln_key :: "vulnerability \<Rightarrow> string" where
  "vuln_key v = get_or (vuln_id v) (get_or (vuln_type v) [])"

definition vuln_dict :: "vulnerability list \<Rightarrow> (string \<times> vulnerability) list" where
  "vuln_dict vs = foldl (\<lambda>d v. AList.update (vuln_key v) v d) [] vs"

definition vulnerability_added_change :: "vulnerability \<Rightarrow> change" where
  "vulnerability_added_change v =
     (new_change security_change)
       \<lparr>change_type := Some vulnerability_added,
        vulnerability_type := vuln_type v,
        severity := Some (get_or (vuln_severity v) ''medium''),
        description := Some (get_or (vuln_description v) []),
        remediation_advice := Some (get_or (vuln_remediation v) []),
        change_evidence := VulnerabilityEvidence v (get_or (vuln_cve_ids v) [])\<rparr>"

definition vulnerability_fixed_change :: "string \<Rightarrow> vulnerability \<Rightarrow> change" where
  "vulnerability_fixed_change k v =
     (new_change security_change)
       \<lparr>change_type := Some vulnerability_fixed,
        vulnerability_type := vuln_type v,
        severity := Some ''info'',
        description := Some (''Vulnerability fixed: '' @ get_or (vuln_description v) k),
        change_evidence := FixedEvidence v\<rparr>"

definition ssl_changes :: "ssl_info \<Rightarrow> ssl_info \<Rightarrow> change list" where
  "ssl_changes old_ssl new_ssl =
     (if fingerprint old_ssl \<noteq> fingerprint new_ssl
      then [(new_change security_change)
              \<lparr>change_type := Some ssl_certificate_changed,
               description := Some ''SSL certificate changed'',
               severity := Some ''medium'',
               change_evidence := CertificateEvidence old_ssl new_ssl\<rparr>]
      else [])"

definition detect_security_changes :: "security \<Rightarrow> security \<Rightarrow> change list" where
  "detect_security_changes old_security new_security =
     (let old_vulns = vuln_dict (vulnerabilities old_security);
          new_vulns = vuln_dict (vulnerabilities new_security)
      in map (\<lambda>(k, v). vulnerability_added_change v)
           (filter (\<lambda>(k, v). k \<notin> set (map fst old_vulns)) new_vulns)
         @ map (\<lambda>(k, v). vulnerability_fixed_change k v)
           (filter (\<lambda>(k, v). k \<notin> set (map fst new_vulns)) old_vulns)
         @ header_changes (security_headers old_security) (security_headers new_security)
         @ ssl_changes (ssl old_security) (ssl new_security))"

text \<open>The header a \<open>security_header_changed\<close> change refers to (\<open>evidence['header']\<close>).\<close>

definition evidence_header :: "change \<Rightarrow> string option" where
  "evidence_header c =
     (case change_evidence c of HeaderEvidence h ov nv \<Rightarrow> Some h | _ \<Rightarrow> None)"

section \<open>Change detector: performance, content and infrastructure changes\<close>

text \<open>
  \<open>metrics_to_check\<close>: key, display name, unit and default threshold (in percent) of
  each monitored metric. The thresholds of a configuration are a dictionary from metric
  key to percent, looked up with \<open>thresholds.get(metric_key, default_threshold)\<close>.
\<close>

type_synonym thresholds = "(string \<times> rat) list"

definition metrics_to_check :: "(string \<times> string \<times> string \<times> rat) list" where
  "metrics_to_check =
     [(''load_time'', ''Page Load Time'', ''ms'', 15),
      (''ttfb'', ''Time to First Byte'', ''ms'', 20),
      (''fcp'', ''First Contentful Paint'', ''ms'', 20),
      (''lcp'', ''Largest Contentful Paint'', ''ms'', 20),
      (''cls'', ''Cumulative Layout Shift'', ''score'', 25),
      (''fid'', ''First Input Delay'', ''ms'', 30),
      (''lighthouse_score'', ''Lighthouse Performance Score'', ''score'', 10)]"

definition measured_change ::
  "string \<times> string \<times> string \<times> rat \<Rightarrow> rat \<Rightarrow> rat \<Rightarrow> rat \<Rightarrow> rat
   \<Rightarrow> string option \<Rightarrow> string option \<Rightarrow> change" where
  "measured_change m old_v new_v pct threshold old_time new_time =
     (case m of (metric_key, display_name, unit_name, default_threshold) \<Rightarrow>
        (new_change performance_change)
          \<lparr>metric_name := Some metric_key,
           metric_display_name := Some display_name,
           unit := Some unit_name,
           old_value := Some old_v,
           new_value := Some new_v,
           change_percent := Some pct,
           threshold_exceeded := Some True,
           severity := Some (if \<bar>pct\<bar> > threshold * 2 then ''critical''
                             else if \<bar>pct\<bar> > threshold * (3 / 2) then ''warning''
                             else ''info''),
           is_degradation := Some (if metric_key \<noteq> ''lighthouse_score'' then pct > 0 else pct < 0),
           change_evidence := ThresholdEvidence threshold old_time new_time\<rparr>)"

text \<open>One pass of the loop over \<open>metrics_to_check\<close>: no change or one.\<close>

definition metric_change ::
  "thresholds \<Rightarrow> performance \<Rightarrow> performance \<Rightarrow> string \<times> string \<times> string \<times> rat \<Rightarrow> change list" where
  "metric_change ths old_perf new_perf m =
     (case m of (metric_key, display_name, unit_name, default_threshold) \<Rightarrow>
        (case map_of (perf_metrics old_perf) metric_key of
           None \<Rightarrow> []
         | Some old_v \<Rightarrow>
             (case map_of (perf_metrics new_perf) metric_key of
                None \<Rightarrow> []
              | Some new_v \<Rightarrow>
                  if old_v > 0
                  then (let pct = ((new_v - old_v) / old_v) * 100;
                            threshold = get_or (map_of ths metric_key) default_threshold
                        in if \<bar>pct\<bar> > threshold
                           then [measured_change m old_v new_v pct threshold
                                   (perf_scan_timestamp old_perf) (perf_scan_timestamp new_perf)]
                           else [])
                  else [])))"

definition issue_change :: "change_subtype \<Rightarrow> string \<Rightarrow> string \<Rightarrow> change" where
  "issue_change kind sev i =
     (new_change performance_change)
       \<lparr>change_type := Some kind, issue := Some i, severity := Some sev,
        change_evidence := IssueEvidence i\<rparr>"

definition detect_performance_changes :: "thresholds \<Rightarrow> performance \<Rightarrow> performance \<Rightarrow> change list" where
  "detect_performance_changes ths old_perf new_perf =
     (let old_issues = py_set (perf_issues old_perf);
          new_issues = py_set (perf_issues new_perf)
      in concat (map (metric_change ths old_perf new_perf) metrics_to_check)
         @ map (issue_change issue_added ''warning'') (filter (\<lambda>i. i \<notin> set old_issues) new_issues)
         @ map (issue_change issue_resolved ''info'') (filter (\<lambda>i. i \<notin> set new_issues) old_issues))"

text \<open>
  Content changes. The similarity of two strings is \<open>SequenceMatcher(None, a, b).ratio()\<close>
  of the standard library; it is a parameter \<open>ratio\<close> of the model.
\<close>

definition detect_content_changes :: "(string \<Rightarrow> string \<Rightarrow> rat) \<Rightarrow> content \<Rightarrow> content \<Rightarrow> change list" where
  "detect_content_changes ratio old_content new_content =
     (let old_title = py_strip (get_or (title old_content) []);
          new_title = py_strip (get_or (title new_content) []);
          old_desc = py_strip (get_or (meta_description old_content) []);
          new_desc = py_strip (get_or (meta_description new_content) [])
      in (if old_title \<noteq> [] \<and> new_title \<noteq> [] \<and> old_title \<noteq> new_title
             \<and> ratio old_title new_title < 8 / 10
          then [(new_change content_change)
                  \<lparr>change_type := Some title_changed,
                   description := Some ''Page title changed significantly'',
                   severity := Some ''info'',
                   change_evidence := TitleEvidence old_title new_title (ratio old_title new_title)\<rparr>]
          else [])
         @ (if old_desc \<noteq> [] \<and> new_desc \<noteq> [] \<and> old_desc \<noteq> new_desc
               \<and> ratio old_desc new_desc < 7 / 10
            then [(new_change content_change)
                    \<lparr>change_type := Some meta_description_changed,
                     description := Some ''Meta description changed significantly'',
                     severity := Some ''info'',
                     change_evidence := DescriptionEvidence old_desc new_desc (ratio old_desc new_desc)\<rparr>]
            else [])
         @ (if truthy (content_hash old_content) \<and> truthy (content_hash new_content)
               \<and> content_hash old_content \<noteq> content_hash new_content
            then [(new_change content_change)
                    \<lparr>change_type := Some content_hash_changed,
                     description := Some ''Page content changed'',
                     severity := Some ''info'',
                     change_evidence := HashEvidence (get_or (content_hash old_content) [])
                                          (get_or (content_hash new_content) [])\<rparr>]
            else []))"

definition detect_infrastructure_changes :: "infrastructure \<Rightarrow> infrastructure \<Rightarrow> change list" where
  "detect_infrastructure_changes old_infra new_infra =
     (let old_server = get_or (server_software old_infra) [];
          new_server = get_or (server_software new_infra) [];
          old_ip = get_or (ip_address old_infra) [];
          new_ip = get_or (ip_address new_infra) [];
          old_cdn = py_set (cdn_providers old_infra);
          new_cdn = py_set (cdn_providers new_infra)
      in (if old_server \<noteq> [] \<and> new_server \<noteq> [] \<and> old_server \<noteq> new_server
          then [(new_change infrastructure_change)
                  \<lparr>change_type := Some server_software_changed,
                   description := Some ''Server software changed'',
                   severity := Some ''medium'',
                   change_evidence := ServerEvidence old_server new_server\<rparr>]
          else [])
         @ (if old_ip \<noteq> [] \<and> new_ip \<noteq> [] \<and> old_ip \<noteq> new_ip
            then [(new_change infrastructure_change)
                    \<lparr>change_type := Some ip_address_changed,
                     description := Some ''IP address changed'',
                     severity := Some ''medium'',
                     change_evidence := IpEvidence old_ip new_ip\<rparr>]
            else [])
         @ (if set old_cdn \<noteq> set new_cdn
            then [(new_change infrastructure_change)
                    \<lparr>change_type := Some cdn_changed,
                     description := Some ''CDN configuration changed'',
                     severity := Some ''info'',
                     change_evidence :=
                       CdnEvidence old_cdn new_cdn
                         (filter (\<lambda>p. p \<notin> set old_cdn) new_cdn)
                         (filter (\<lambda>p. p \<notin> set new_cdn) old_cdn)\<rparr>]
            else []))"

section \<open>Change detector: noise filter, confidence and evidence\<close>

text \<open>
  \<open>_is_noise\<close>: a technology change whose lower-cased name contains one of the noisy
  names, or a performance change of less than 2 percent (a change with no
  \<open>change_percent\<close> key counts as 0 percent).
\<close>

definition is_noise :: "change \<Rightarrow> bool" where
  "is_noise c =
     (if ctype c = technology_change
      then (let name = py_lower (get_or (technology_name c) [])
            in list_ex (\<lambda>noisy. py_in noisy name) noisy_technologies)
      else if ctype c = performance_change
      then \<bar>get_or (change_percent c) 0\<bar> < 2
      else False)"

definition is_ignored_minor_update :: "change \<Rightarrow> bool" where
  "is_ignored_minor_update c =
     (ctype c = technology_change \<and> change_type c = Some version_changed
      \<and> get_or (technology_name c) [] \<in> set ignore_minor_updates
      \<and> is_minor_version_change (get_or (old_version c) []) (get_or (new_version c) []))"

definition is_small_performance_change :: "change \<Rightarrow> bool" where
  "is_small_performance_change c =
     (ctype c = performance_change \<and> \<bar>get_or (change_percent c) 0\<bar> < 5)"

text \<open>
  \<open>_filter_noise\<close> returns the changes it keeps; the second component is the number
  it adds to the counter \<open>false_positives_filtered\<close>.
\<close>

fun filter_noise :: "change list \<Rightarrow> change list \<times> nat" where
  "filter_noise [] = ([], 0)"
| "filter_noise (c # cs) =
     (let (kept, dropped) = filter_noise cs
      in if is_noise c then (kept, dropped + 1)
         else if is_ignored_minor_update c then (kept, dropped + 1)
         else if is_small_performance_change c then (kept, dropped + 1)
         else (c # kept, dropped))"

text \<open>\<open>_calculate_confidence\<close>: the mean of the discounted confidences, 1 for no change.\<close>

definition discounted_confidence :: "change \<Rightarrow> rat" where
  "discounted_confidence c =
     (let conf = get_or (confidence c) 1
      in if ctype c = technology_change then conf * (9 / 10)
         else if ctype c = performance_change then conf * (7 / 10)
         else if ctype c = security_change then conf * (8 / 10)
         else conf)"

definition calculate_confidence :: "change list \<Rightarrow> rat" where
  "calculate_confidence cs =
     (if cs = [] then 1
      else foldl (\<lambda>total c. total + discounted_confidence c) 0 cs / of_nat (length cs))"

record detection_evidence =
  ev_old_timestamp :: "string option"
  ev_new_timestamp :: "string option"
  ev_old_scan_id :: "string option"
  ev_new_scan_id :: "string option"
  ev_total_changes :: nat
  ev_change_types :: "change_kind list"
  ev_severities :: "string list"
  ev_detector_version :: string
  ev_detection_time :: rat

definition gather_evidence :: "rat \<Rightarrow> scan \<Rightarrow> scan \<Rightarrow> change list \<Rightarrow> detection_evidence" where
  "gather_evidence now old_scan new_scan cs =
     \<lparr>ev_old_timestamp = scan_timestamp old_scan,
      ev_new_timestamp = scan_timestamp new_scan,
      ev_old_scan_id = scan_scan_id old_scan,
      ev_new_scan_id = scan_scan_id new_scan,
      ev_total_changes = length cs,
      ev_change_types = py_set (map ctype cs),
      ev_severities = py_set (map (\<lambda>c. get_or (severity c) []) (filter (\<lambda>c. truthy (severity c)) cs)),
      ev_detector_version = ''1.0.0'',
      ev_detection_time = now\<rparr>"

section \<open>Change detector: state, thresholds, detection and the scan-completed handler\<close>

text \<open>
  The detector's state: its counters, the cache (\<open>perf_thresholds:{config_id}\<close> keys,
  each with the time at which it expires), and the tables it reads and writes. A cache or
  store that cannot be reached makes the call raise; \<open>det_redis_up\<close> and \<open>det_db_up\<close>
  say whether the calls succeed. Times are seconds.
\<close>

record detector_metrics =
  m_changes_detected :: nat
  m_technology_changes :: nat
  m_performance_changes :: nat
  m_security_changes :: nat
  m_false_positives_filtered :: nat
  m_processing_time_total_ms :: rat
  m_last_error :: "string option"

record scan_config =
  performance_thresholds :: "thresholds option"
  priority :: "string option"
  other_options :: "(string \<times> string) list"

definition scan_config_nonempty :: "scan_config \<Rightarrow> bool" where
  "scan_config_nonempty sc =
     (performance_thresholds sc \<noteq> None \<or> priority sc \<noteq> None \<or> other_options sc \<noteq> [])"

record scan_row =
  sr_id :: string
  sr_config_id :: string
  sr_status :: string
  sr_scan_timestamp :: rat
  sr_result_summary :: scan

record detector =
  det_metrics :: detector_metrics
  det_redis_up :: bool
  det_db_up :: bool
  det_threshold_cache :: "(string \<times> thresholds \<times> rat) list"
  det_monitoring_configs :: "(string \<times> scan_config option) list"
  det_scan_results :: "scan_row list"
  det_stored_changes :: "(string \<times> string \<times> change) list"
  det_produced :: "(string \<times> string \<times> change) list"

text \<open>
  \<open>_get_performance_thresholds\<close>: the cached value if the key is present, else the
  \<open>performance_thresholds\<close> of the stored \<open>scan_config\<close>, cached for an hour; the empty
  dictionary if there is no non-empty \<open>scan_config\<close> or if a call raises.
\<close>

definition thresholds_from_store :: "rat \<Rightarrow> string \<Rightarrow> detector \<Rightarrow> thresholds \<times> detector" where
  "thresholds_from_store now config_id st =
     (if \<not> det_db_up st then ([], st)
      else case map_of (det_monitoring_configs st) config_id of
             Some (Some sc) \<Rightarrow>
               if scan_config_nonempty sc
               then (let ths = get_or (performance_thresholds sc) []
                     in (ths, st\<lparr>det_threshold_cache :=
                           AList.update config_id (ths, now + 3600) (det_threshold_cache st)\<rparr>))
               else ([], st)
           | _ \<Rightarrow> ([], st))"

definition get_performance_thresholds :: "rat \<Rightarrow> string \<Rightarrow> detector \<Rightarrow> thresholds \<times> detector" where
  "get_performance_thresholds now config_id st =
     (if \<not> det_redis_up st then ([], st)
      else case map_of (det_threshold_cache st) config_id of
             Some (cached, expires) \<Rightarrow>
               if now < expires then (cached, st) else thresholds_from_store now config_id st
           | None \<Rightarrow> thresholds_from_store now config_id st)"

record change_detection =
  has_changes :: bool
  changes :: "change list"
  detection_confidence :: rat
  detection_evidence :: detection_evidence
  processing_time_ms :: rat

text \<open>
  The three readings of the clock that \<open>detect_changes\<close> takes: at its start, in
  \<open>_gather_evidence\<close> and at its end.
\<close>

record detect_clock =
  t_start :: rat
  t_evidence :: rat
  t_end :: rat

definition add_counts :: "nat \<Rightarrow> nat \<Rightarrow> nat \<Rightarrow> nat \<Rightarrow> detector_metrics \<Rightarrow> detector_metrics" where
  "add_counts tech perf sec dropped m =
     m\<lparr>m_technology_changes := m_technology_changes m + tech,
       m_performance_changes := m_performance_changes m + perf,
       m_security_changes := m_security_changes m + sec,
       m_false_positives_filtered := m_false_positives_filtered m + dropped\<rparr>"

definition detect_changes ::
  "(string \<Rightarrow> string \<Rightarrow> rat) \<Rightarrow> detect_clock \<Rightarrow> detector \<Rightarrow> scan \<Rightarrow> scan \<Rightarrow> string
   \<Rightarrow> change_detection \<times> detector" where
  "detect_changes ratio clk st old_scan new_scan config_id =
     (let tech_changes = detect_technology_changes (scan_technologies old_scan) (scan_technologies new_scan);
          (ths, st1) = get_performance_thresholds (t_start clk) config_id st;
          perf_changes = detect_performance_changes ths (scan_performance old_scan) (scan_performance new_scan);
          security_changes = detect_security_changes (scan_security old_scan) (scan_security new_scan);
          content_changes = detect_content_changes ratio (scan_content old_scan) (scan_content new_scan);
          infra_changes = detect_infrastructure_changes (scan_infrastructure old_scan)
                            (scan_infrastructure new_scan);
          all_changes = tech_changes @ perf_changes @ security_changes @ content_changes @ infra_changes;
          (meaningful_changes, dropped) = filter_noise all_changes;
          st2 = st1\<lparr>det_metrics := add_counts (length tech_changes) (length perf_changes)
                                      (length security_changes) dropped (det_metrics st1)\<rparr>
      in (\<lparr>has_changes = length meaningful_changes > 0,
           changes = meaningful_changes,
           detection_confidence = calculate_confidence meaningful_changes,
           detection_evidence = gather_evidence (t_evidence clk) old_scan new_scan meaningful_changes,
           processing_time_ms = (t_end clk - t_start clk) * 1000\<rparr>,
          st2))"

text \<open>
  \<open>_get_previous_scan\<close> runs
  \<open>SELECT ... FROM scan_results WHERE config_id = $1 AND status = 'completed'
  ORDER BY scan_timestamp DESC LIMIT 2\<close> through \<open>fetchrow\<close>, which returns the first
  row of the result. \<open>latest_row\<close> is that first row: a row of greatest timestamp
  (among equal timestamps the database may return any; the model takes the earliest in
  the table).
\<close>

fun latest_row :: "scan_row list \<Rightarrow> scan_row option" where
  "latest_row [] = None"
| "latest_row (r # rs) =
     (case latest_row rs of
        None \<Rightarrow> Some r
      | Some r' \<Rightarrow> if sr_scan_timestamp r' > sr_scan_timestamp r then Some r' else Some r)"

definition get_previous_scan :: "detector \<Rightarrow> string \<Rightarrow> scan_row option" where
  "get_previous_scan st config_id =
     (if \<not> det_db_up st then None
      else latest_row (filter (\<lambda>r. sr_config_id r = config_id \<and> sr_status r = ''completed'')
                         (det_scan_results st)))"

text \<open>
  \<open>_process_detected_changes\<close>: technology, performance and security changes are
  inserted into their tables, and every change is handed to the producer for topic
  \<open>change.detected\<close> with the configuration id as key. \<open>None\<close> stands for the
  exception of a store that cannot be reached.
\<close>

definition is_stored_kind :: "change \<Rightarrow> bool" where
  "is_stored_kind c = (ctype c \<in> {technology_change, performance_change, security_change})"

definition process_detected_changes :: "string \<Rightarrow> string \<Rightarrow> change_detection \<Rightarrow> detector \<Rightarrow> detector option" where
  "process_detected_changes config_id scan_id res st =
     (if \<not> det_db_up st then None
      else Some (st\<lparr>det_stored_changes :=
                      det_stored_changes st
                      @ map (\<lambda>c. (config_id, scan_id, c)) (filter is_stored_kind (changes res)),
                    det_produced :=
                      det_produced st @ map (\<lambda>c. (''change.detected'', config_id, c)) (changes res),
                    det_metrics := (det_metrics st)
                      \<lparr>m_changes_detected := m_changes_detected (det_metrics st) + length (changes res)\<rparr>\<rparr>))"

record scan_completed_data =
  data_config_id :: "string option"
  data_scan_id :: string
  data_result_summary :: "scan option"

datatype handler_outcome =
  InvalidMessage | NoPreviousScan | Compared scan_row change_detection | HandlerError

text \<open>
  \<open>_handle_scan_completed\<close>. The outcome records which branch ran and, when a comparison
  was made, the stored row whose snapshot served as the old one. \<open>h_start\<close> and \<open>h_end\<close>
  are the handler's own two readings of the clock around \<open>detect_changes\<close>.
\<close>

definition handle_scan_completed ::
  "(string \<Rightarrow> string \<Rightarrow> rat) \<Rightarrow> rat \<Rightarrow> rat \<Rightarrow> detect_clock \<Rightarrow> detector \<Rightarrow> scan_completed_data
   \<Rightarrow> handler_outcome \<times> detector" where
  "handle_scan_completed ratio h_start h_end clk st data =
     (case (data_config_id data, data_result_summary data) of
        (Some config_id, Some result_summary) \<Rightarrow>
          if config_id = [] then (InvalidMessage, st)
          else (case get_previous_scan st config_id of
                  None \<Rightarrow> (NoPreviousScan, st)
                | Some previous \<Rightarrow>
                    (let (res, st1) = detect_changes ratio clk st (sr_result_summary previous)
                                        result_summary config_id;
                         st2 = st1\<lparr>det_metrics := (det_metrics st1)
                                 \<lparr>m_processing_time_total_ms :=
                                    m_processing_time_total_ms (det_metrics st1) + (h_end - h_start) * 1000\<rparr>\<rparr>
                     in if has_changes res
                        then (case process_detected_changes config_id (data_scan_id data) res st2 of
                                None \<Rightarrow> (HandlerError,
                                          st2\<lparr>det_metrics := (det_metrics st2)
                                                \<lparr>m_last_error := Some ''store unreachable''\<rparr>\<rparr>)
                              | Some st3 \<Rightarrow> (Compared previous res, st3))
                        else (Compared previous res, st2)))
      | _ \<Rightarrow> (InvalidMessage, st))"

text \<open>
  Three notions used to state when two runs of \<open>detect_changes\<close> agree: the list
  \<open>all_changes\<close> that the five detectors build before the noise filter, the thresholds
  that the stored configuration gives, and the condition that an entry of the cache
  which has not expired holds exactly those thresholds.
\<close>

definition raw_changes :: "(string \<Rightarrow> string \<Rightarrow> rat) \<Rightarrow> thresholds \<Rightarrow> scan \<Rightarrow> scan \<Rightarrow> change list" where
  "raw_changes ratio ths old_scan new_scan =
     detect_technology_changes (scan_technologies old_scan) (scan_technologies new_scan)
     @ detect_performance_changes ths (scan_performance old_scan) (scan_performance new_scan)
     @ detect_security_changes (scan_security old_scan) (scan_security new_scan)
     @ detect_content_changes ratio (scan_content old_scan) (scan_content new_scan)
     @ detect_infrastructure_changes (scan_infrastructure old_scan) (scan_infrastructure new_scan)"

definition stored_thresholds :: "detector \<Rightarrow> string \<Rightarrow> thresholds" where
  "stored_thresholds st cid =
     (case map_of (det_monitoring_configs st) cid of
        Some (Some sc) \<Rightarrow>
          if scan_config_nonempty sc then get_or (performance_thresholds sc) [] else []
      | _ \<Rightarrow> [])"

definition cache_agrees :: "rat \<Rightarrow> string \<Rightarrow> detector \<Rightarrow> bool" where
  "cache_agrees now cid st =
     (case map_of (det_threshold_cache st) cid of
        None \<Rightarrow> True
      | Some (cached, expires) \<Rightarrow> expires \<le> now \<or> cached = stored_thresholds st cid)"

section \<open>Alert engine\<close>

text \<open>
  An alert rule as \<open>_get_alert_rules\<close> builds it. How a rule's \<open>conditions\<close> match a
  change (the five dialects of \<open>_evaluate_rule\<close>, one of which calls \<open>eval\<close>) is a
  parameter \<open>matches\<close> of the model; a disabled rule never matches. Alert ids are drawn
  from a counter that stands for \<open>uuid.uuid4()\<close>. The title and the description of an
  alert, which are rendered from templates, are left out of the alert record.
\<close>

record channel_config =
  channel_type :: "string option"
  channel_name :: "string option"
  channel_settings :: "(string \<times> string) list"

record alert_rule =
  rule_id :: string
  rule_name :: string
  rule_severity :: string
  rule_channels :: "channel_config list"
  rule_enabled :: bool
  throttle_minutes :: int

record alert =
  alert_id :: nat
  alert_config_id :: string
  alert_rule_name :: string
  alert_type :: change_kind
  alert_severity :: string
  alert_details :: change
  triggered_at :: int

record alert_row =
  row_alert :: alert
  row_channels :: "channel_config list"
  notification_sent :: bool
  notification_attempts :: nat

record notification_row =
  note_alert_id :: nat
  note_channel_type :: string
  note_channel_config :: channel_config
  note_status :: string
  note_error :: "string option"

record engine_metrics =
  em_alerts_triggered :: nat
  em_alerts_sent :: nat
  em_alerts_failed :: nat
  em_notifications_sent :: nat
  em_notifications_failed :: nat
  em_rules_evaluated :: nat

text \<open>
  The engine's state. \<open>ae_throttle\<close> holds the cache keys
  \<open>alert_throttle:{config_id}:{rule_id}\<close>, each with the time (in seconds) at which it
  expires; \<open>ae_rules\<close> is the \<open>alert_rules\<close> column of \<open>monitoring_configs\<close>;
  \<open>ae_alerts\<close> and \<open>ae_notifications\<close> are the tables \<open>monitoring_alerts\<close> and
  \<open>alert_notifications\<close>; \<open>ae_produced\<close> lists the alerts handed to the producer for
  topic \<open>alert.triggered\<close>. \<open>ae_redis_up\<close> and \<open>ae_db_up\<close> say whether calls to the
  cache and to the store succeed.
\<close>

record alert_engine =
  ae_redis_up :: bool
  ae_db_up :: bool
  ae_throttle :: "((string \<times> string) \<times> int) list"
  ae_rules :: "(string \<times> alert_rule list) list"
  ae_alerts :: "alert_row list"
  ae_notifications :: "notification_row list"
  ae_produced :: "(string \<times> nat) list"
  ae_next_uuid :: nat
  ae_metrics :: engine_metrics

text \<open>
  \<open>_is_throttled\<close> is \<open>redis.exists(key)\<close>, false when the call raises. A key exists
  from the time it is set until the time it expires.
\<close>

definition is_throttled :: "int \<Rightarrow> alert_engine \<Rightarrow> string \<Rightarrow> string \<Rightarrow> bool" where
  "is_throttled now st config_id rid =
     (if \<not> ae_redis_up st then False
      else case map_of (ae_throttle st) (config_id, rid) of
             None \<Rightarrow> False
           | Some expires \<Rightarrow> now < expires)"

text \<open>
  \<open>_set_throttle\<close> is \<open>redis.setex(key, throttle_minutes * 60, '1')\<close>; an error of the
  call is logged and nothing is stored. The cache rejects a time to live that is not
  positive.
\<close>

definition set_throttle :: "int \<Rightarrow> string \<Rightarrow> string \<Rightarrow> int \<Rightarrow> alert_engine \<Rightarrow> alert_engine" where
  "set_throttle now config_id rid minutes st =
     (if ae_redis_up st \<and> minutes * 60 > 0
      then st\<lparr>ae_throttle := AList.update (config_id, rid) (now + minutes * 60) (ae_throttle st)\<rparr>
      else st)"

text \<open>\<open>_store_alert\<close>: \<open>None\<close> stands for the exception it re-raises.\<close>

definition store_alert :: "alert \<Rightarrow> channel_config list \<Rightarrow> alert_engine \<Rightarrow> alert_engine option" where
  "store_alert a chans st =
     (if \<not> ae_db_up st then None
      else Some (st\<lparr>ae_alerts := ae_alerts st
                   @ [\<lparr>row_alert = a, row_channels = chans, notification_sent = False,
                       notification_attempts = 0\<rparr>]\<rparr>))"

text \<open>
  \<open>_create_alert\<close>: nothing while the pair is throttled; otherwise the alert is built and
  stored and the throttle is set. An exception on the way gives \<open>None\<close>.
\<close>

definition create_alert ::
  "int \<Rightarrow> string \<Rightarrow> alert_rule \<Rightarrow> change \<Rightarrow> alert_engine \<Rightarrow> alert option \<times> alert_engine" where
  "create_alert now config_id rule change_details st =
     (if is_throttled now st config_id (rule_id rule) then (None, st)
      else (let a = \<lparr>alert_id = ae_next_uuid st, alert_config_id = config_id,
                      alert_rule_name = rule_name rule, alert_type = ctype change_details,
                      alert_severity = rule_severity rule, alert_details = change_details,
                      triggered_at = now\<rparr>;
                st1 = st\<lparr>ae_next_uuid := ae_next_uuid st + 1\<rparr>
            in case store_alert a (rule_channels rule) st1 of
                 None \<Rightarrow> (None, st1)
               | Some st2 \<Rightarrow> (Some a, set_throttle now config_id (rule_id rule) (throttle_minutes rule) st2)))"

definition trigger_alert :: "alert \<Rightarrow> alert_engine \<Rightarrow> alert_engine" where
  "trigger_alert a st =
     st\<lparr>ae_produced := ae_produced st @ [(alert_config_id a, alert_id a)],
        ae_metrics := (ae_metrics st)\<lparr>em_alerts_triggered := em_alerts_triggered (ae_metrics st) + 1\<rparr>\<rparr>"

definition evaluate_rule ::
  "(alert_rule \<Rightarrow> change \<Rightarrow> bool) \<Rightarrow> alert_rule \<Rightarrow> change \<Rightarrow> alert_engine \<Rightarrow> bool \<times> alert_engine" where
  "evaluate_rule matches rule change_details st =
     (if \<not> rule_enabled rule then (False, st)
      else (matches rule change_details,
            st\<lparr>ae_metrics := (ae_metrics st)\<lparr>em_rules_evaluated := em_rules_evaluated (ae_metrics st) + 1\<rparr>\<rparr>))"

definition get_alert_rules :: "alert_engine \<Rightarrow> string \<Rightarrow> alert_rule list" where
  "get_alert_rules st config_id =
     (if \<not> ae_db_up st then []
      else case map_of (ae_rules st) config_id of None \<Rightarrow> [] | Some rules \<Rightarrow> rules)"

text \<open>
  The loop of \<open>_handle_change_detected\<close> over the rules of the configuration. The result
  lists, in order, the alerts it triggered, each with the id of its rule.
\<close>

fun evaluate_rules ::
  "(alert_rule \<Rightarrow> change \<Rightarrow> bool) \<Rightarrow> int \<Rightarrow> string \<Rightarrow> change \<Rightarrow> alert_rule list \<Rightarrow> alert_engine
   \<Rightarrow> (string \<times> alert) list \<times> alert_engine" where
  "evaluate_rules matches now config_id change_details [] st = ([], st)"
| "evaluate_rules matches now config_id change_details (rule # rules) st =
     (let (matched, st1) = evaluate_rule matches rule change_details st
      in if matched
         then (case create_alert now config_id rule change_details st1 of
                 (None, st2) \<Rightarrow> evaluate_rules matches now config_id change_details rules st2
               | (Some a, st2) \<Rightarrow>
                   (let (triggered, st3) =
                          evaluate_rules matches now config_id change_details rules (trigger_alert a st2)
                    in ((rule_id rule, a) # triggered, st3)))
         else evaluate_rules matches now config_id change_details rules st1)"

record change_detected_data =
  cd_config_id :: "string option"
  cd_change_type :: "string option"
  cd_change_details :: change

definition handle_change_detected ::
  "(alert_rule \<Rightarrow> change \<Rightarrow> bool) \<Rightarrow> int \<Rightarrow> change_detected_data \<Rightarrow> alert_engine
   \<Rightarrow> (string \<times> alert) list \<times> alert_engine" where
  "handle_change_detected matches now data st =
     (if \<not> truthy (cd_config_id data) \<or> \<not> truthy (cd_change_type data) then ([], st)
      else let config_id = get_or (cd_config_id data) []
           in evaluate_rules matches now config_id (cd_change_details data)
                (get_alert_rules st config_id) st)"

text \<open>
  A consumer delivers the messages of a partition one after the other; \<open>consume_changes\<close>
  handles a list of messages, each with the time at which it is handled, and collects the
  alerts triggered.
\<close>

fun consume_changes ::
  "(alert_rule \<Rightarrow> change \<Rightarrow> bool) \<Rightarrow> (int \<times> change_detected_data) list \<Rightarrow> alert_engine
   \<Rightarrow> (string \<times> alert) list \<times> alert_engine" where
  "consume_changes matches [] st = ([], st)"
| "consume_changes matches ((now, data) # rest) st =
     (let (triggered, st1) = handle_change_detected matches now data st;
          (more, st2) = consume_changes matches rest st1
      in (triggered @ more, st2))"

text \<open>
  Notification dispatch. What a channel's \<open>send_notification\<close> returns for an alert is the
  parameter \<open>send\<close>: every channel class catches its own exceptions and returns a
  dictionary with a \<open>status\<close> of \<open>sent\<close> or \<open>failed\<close>.
\<close>

record send_result =
  result_status :: string
  result_error :: "string option"

definition channel_handlers :: "string list" where
  "channel_handlers = [''email'', ''slack'', ''webhook'', ''sms'']"

definition log_notification_attempt ::
  "nat \<Rightarrow> string \<Rightarrow> channel_config \<Rightarrow> send_result \<Rightarrow> alert_engine \<Rightarrow> alert_engine" where
  "log_notification_attempt aid ctype_name cfg res st =
     (if \<not> ae_db_up st then st
      else st\<lparr>ae_notifications := ae_notifications st
                 @ [\<lparr>note_alert_id = aid, note_channel_type = ctype_name, note_channel_config = cfg,
                     note_status = result_status res, note_error = result_error res\<rparr>]\<rparr>)"

text \<open>
  The loop of \<open>_send_notifications\<close> over the configured channels: a channel of unknown
  type is skipped; for any other the result of the send is appended to \<open>results\<close>, the
  attempt is logged and a counter is incremented.
\<close>

fun send_to_channels ::
  "(channel_config \<Rightarrow> alert \<Rightarrow> send_result) \<Rightarrow> alert \<Rightarrow> channel_config list \<Rightarrow> alert_engine
   \<Rightarrow> send_result list \<times> alert_engine" where
  "send_to_channels send a [] st = ([], st)"
| "send_to_channels send a (cfg # rest) st =
     (case channel_type cfg of
        None \<Rightarrow> send_to_channels send a rest st
      | Some t \<Rightarrow>
          if t \<notin> set channel_handlers then send_to_channels send a rest st
          else (let res = send cfg a;
                    st1 = log_notification_attempt (alert_id a) t cfg res st;
                    st2 = st1\<lparr>ae_metrics :=
                            (if result_status res = ''sent''
                             then (ae_metrics st1)\<lparr>em_notifications_sent := em_notifications_sent (ae_metrics st1) + 1\<rparr>
                             else (ae_metrics st1)\<lparr>em_notifications_failed := em_notifications_failed (ae_metrics st1) + 1\<rparr>)\<rparr>;
                    (results, st3) = send_to_channels send a rest st2
                in (res # results, st3)))"

definition update_alert_notification_status :: "nat \<Rightarrow> send_result list \<Rightarrow> alert_engine \<Rightarrow> alert_engine" where
  "update_alert_notification_status aid results st =
     (let sent = list_ex (\<lambda>r. result_status r = ''sent'') results
      in if \<not> ae_db_up st then st
         else st\<lparr>ae_alerts :=
                   map (\<lambda>row. if alert_id (row_alert row) = aid
                               then row\<lparr>notification_sent := sent,
                                        notification_attempts := notification_attempts row + 1\<rparr>
                               else row)
                       (ae_alerts st)\<rparr>)"

definition send_notifications ::
  "(channel_config \<Rightarrow> alert \<Rightarrow> send_result) \<Rightarrow> alert option \<times> channel_config list \<Rightarrow> alert_engine
   \<Rightarrow> alert_engine" where
  "send_notifications send alert_data st =
     (case alert_data of
        (None, chans) \<Rightarrow> st
      | (Some a, chans) \<Rightarrow>
          (let (results, st1) = send_to_channels send a chans st;
               st2 = update_alert_notification_status (alert_id a) results st1
           in st2\<lparr>ae_metrics :=
                    (if list_ex (\<lambda>r. result_status r = ''sent'') results
                     then (ae_metrics st2)\<lparr>em_alerts_sent := em_alerts_sent (ae_metrics st2) + 1\<rparr>
                     else (ae_metrics st2)\<lparr>em_alerts_failed := em_alerts_failed (ae_metrics st2) + 1\<rparr>)\<rparr>))"

text \<open>\<open>_get_alert_by_id\<close> and \<open>_handle_alert_triggered\<close>.\<close>

definition get_alert_by_id :: "alert_engine \<Rightarrow> nat \<Rightarrow> alert option \<times> channel_config list" where
  "get_alert_by_id st aid =
     (if \<not> ae_db_up st then (None, [])
      else case find (\<lambda>row. alert_id (row_alert row) = aid) (ae_alerts st) of
             None \<Rightarrow> (None, [])
           | Some row \<Rightarrow> (Some (row_alert row), row_channels row))"

definition handle_alert_triggered ::
  "(channel_config \<Rightarrow> alert \<Rightarrow> send_result) \<Rightarrow> nat option \<Rightarrow> alert_engine \<Rightarrow> alert_engine" where
  "handle_alert_triggered send data_alert_id st =
     (case data_alert_id of
        None \<Rightarrow> st
      | Some aid \<Rightarrow> send_notifications send (get_alert_by_id st aid) st)"

text \<open>The alerts of one (configuration, rule) pair among the alerts triggered.\<close>

definition alerts_for :: "string \<Rightarrow> string \<Rightarrow> (string \<times> alert) list \<Rightarrow> (string \<times> alert) list" where
  "alerts_for config_id rid triggered =
     filter (\<lambda>(r, a). r = rid \<and> alert_config_id a = config_id) triggered"

text \<open>
  The channels of a list for which a send is attempted (those whose type has a handler),
  and the row that \<open>_log_notification_attempt\<close> writes for one of them.
\<close>

definition attempted_channels :: "channel_config list \<Rightarrow> channel_config list" where
  "attempted_channels chans =
     filter (\<lambda>cfg. case channel_type cfg of None \<Rightarrow> False | Some t \<Rightarrow> t \<in> set channel_handlers) chans"

definition attempt_row :: "(channel_config \<Rightarrow> alert \<Rightarrow> send_result) \<Rightarrow> alert \<Rightarrow> channel_config \<Rightarrow> notification_row" where
  "attempt_row send a cfg =
     \<lparr>note_alert_id = alert_id a, note_channel_type = get_or (channel_type cfg) [],
      note_channel_config = cfg, note_status = result_status (send cfg a),
      note_error = result_error (send cfg a)\<rparr>"

section \<open>Rate limiter and scheduler\<close>

text \<open>
  \<open>netloc\<close> models \<open>urllib.parse.urlparse(url).netloc\<close> of the standard library:
  leading control characters and spaces are dropped, tabs and line breaks are removed, a
  leading scheme (a letter followed by letters, digits, \<open>+\<close>, \<open>-\<close> or \<open>.\<close>, up to the
  first colon) is split off, and if the rest starts with \<open>//\<close> the network location is
  what follows up to the first \<open>/\<close>, \<open>?\<close> or \<open>#\<close>; otherwise it is empty. \<open>None\<close>
  stands for the \<open>ValueError\<close> raised for an unmatched square bracket.
\<close>

definition is_alpha :: "char \<Rightarrow> bool" where
  "is_alpha c = (let n = (of_char c :: nat) in (65 \<le> n \<and> n \<le> 90) \<or> (97 \<le> n \<and> n \<le> 122))"

definition is_scheme_char :: "char \<Rightarrow> bool" where
  "is_scheme_char c = (is_alpha c \<or> is_digit c \<or> c \<in> {CHR ''+'', CHR ''-'', CHR ''.''})"

definition strip_unsafe :: "string \<Rightarrow> string" where
  "strip_unsafe url =
     filter (\<lambda>c. c \<notin> {CHR 0x09, CHR 0x0A, CHR 0x0D}) (dropWhile (\<lambda>c. (of_char c :: nat) \<le> 32) url)"

definition split_scheme :: "string \<Rightarrow> string" where
  "split_scheme url =
     (let name = takeWhile (\<lambda>c. c \<noteq> CHR '':'') url
      in if length name < length url \<and> name \<noteq> [] \<and> is_alpha (hd url) \<and> list_all is_scheme_char name
         then drop (length name + 1) url
         else url)"

definition netloc :: "string \<Rightarrow> string option" where
  "netloc url =
     (let rest = split_scheme (strip_unsafe url)
      in if take 2 rest = ''//''
         then (let loc = takeWhile (\<lambda>c. c \<notin> {CHR ''/'', CHR ''?'', CHR ''#''}) (drop 2 rest)
               in if (CHR ''['' \<in> set loc) \<noteq> (CHR '']'' \<in> set loc) then None else Some loc)
         else Some [])"

text \<open>\<open>_extract_domain\<close> is the lower-cased network location.\<close>

definition extract_domain :: "string \<Rightarrow> string option" where
  "extract_domain url = map_option py_lower (netloc url)"



text \<open>
  The rate limiter's cache: key \<open>scan_rate:{domain}\<close> with the recorded time of the scan
  and the time at which the key expires. \<open>None\<close> as a result stands for an exception
  (cache unreachable, invalid URL, time to live rejected), which \<open>_trigger_scan\<close> catches.
\<close>

record rate_limiter =
  rl_redis_up :: bool
  rl_marks :: "(string \<times> rat \<times> rat) list"

definition is_allowed :: "rat \<Rightarrow> rate_limiter \<Rightarrow> string \<Rightarrow> rat \<Rightarrow> bool option" where
  "is_allowed now rl url min_interval_minutes =
     (case extract_domain url of
        None \<Rightarrow> None
      | Some domain \<Rightarrow>
          if \<not> rl_redis_up rl then None
          else (case map_of (rl_marks rl) domain of
                  None \<Rightarrow> Some True
                | Some (last_scan_time, expires) \<Rightarrow>
                    if now < expires \<and> now - last_scan_time < min_interval_minutes * 60
                    then Some False else Some True))"

definition record_scan :: "rat \<Rightarrow> rate_limiter \<Rightarrow> string \<Rightarrow> rat \<Rightarrow> rate_limiter option" where
  "record_scan now rl url ttl_minutes =
     (case extract_domain url of
        None \<Rightarrow> None
      | Some domain \<Rightarrow>
          if \<not> rl_redis_up rl \<or> \<not> ttl_minutes * 60 > 0 then None
          else Some (rl\<lparr>rl_marks := AList.update domain (now, now + ttl_minutes * 60) (rl_marks rl)\<rparr>))"

text \<open>
  Schedules and \<open>_calculate_next_scan_time\<close>. \<open>croniter(expression, now).get_next()\<close> of
  the croniter library is the parameter \<open>croniter_next\<close>: it receives the expression and
  the current time, which the code reads in UTC, and \<open>None\<close> stands for an exception
  (no expression, or one that croniter rejects).
\<close>

record schedule =
  schedule_type :: string
  schedule_expression :: "string option"
  schedule_timezone :: "string option"
  schedule_minutes :: "rat option"

definition calculate_next_scan_time :: "(string \<Rightarrow> rat \<Rightarrow> rat option) \<Rightarrow> rat \<Rightarrow> schedule \<Rightarrow> rat option" where
  "calculate_next_scan_time croniter_next now sched =
     (if schedule_type sched = ''cron''
      then (case schedule_expression sched of None \<Rightarrow> None | Some e \<Rightarrow> croniter_next e now)
      else if schedule_type sched = ''interval''
      then Some (now + get_or (schedule_minutes sched) 60 * 60)
      else Some (now + 3600))"



record monitoring_config =
  mc_id :: string
  mc_url :: string
  mc_schedule :: schedule
  mc_scan_config :: scan_config
  mc_enabled :: bool

record pipeline =
  pl_limiter :: rate_limiter
  pl_db_up :: bool
  pl_active_configs :: "(string \<times> monitoring_config) list"
  pl_next_scan_at :: "(string \<times> rat) list"
  pl_scans_scheduled :: nat
  pl_scans_rate_limited :: nat
  pl_last_error :: "string option"

text \<open>
  \<open>_update_scan_scheduled\<close>: the next scan time of the active configuration is computed
  and written to \<open>monitoring_configs.next_scan_at\<close>; an exception is logged and nothing
  is written.
\<close>

definition update_scan_scheduled ::
  "(string \<Rightarrow> rat \<Rightarrow> rat option) \<Rightarrow> rat \<Rightarrow> string \<Rightarrow> pipeline \<Rightarrow> pipeline" where
  "update_scan_scheduled croniter_next now cid pl =
     (if \<not> pl_db_up pl then pl
      else case map_of (pl_active_configs pl) cid of
             None \<Rightarrow> pl
           | Some config \<Rightarrow>
               (case calculate_next_scan_time croniter_next now (mc_schedule config) of
                  None \<Rightarrow> pl
                | Some next_scan_time \<Rightarrow>
                    pl\<lparr>pl_next_scan_at := AList.update cid next_scan_time (pl_next_scan_at pl)\<rparr>))"

text \<open>
  \<open>_trigger_scan\<close>. \<open>published\<close> is the result of \<open>produce_message\<close> for the
  \<open>scan.scheduled\<close> event; \<open>t_check\<close>, \<open>t_record\<close> and \<open>t_update\<close> are the readings of
  the clock in \<open>is_allowed\<close>, \<open>record_scan\<close> and \<open>_calculate_next_scan_time\<close>.
\<close>

record trigger_clock =
  t_check :: rat
  t_record :: rat
  t_update :: rat

definition trigger_scan ::
  "(string \<Rightarrow> rat \<Rightarrow> rat option) \<Rightarrow> bool \<Rightarrow> trigger_clock \<Rightarrow> monitoring_config \<Rightarrow> pipeline \<Rightarrow> pipeline" where
  "trigger_scan croniter_next published clk config pl =
     (case is_allowed (t_check clk) (pl_limiter pl) (mc_url config) 5 of
        None \<Rightarrow> pl\<lparr>pl_last_error := Some ''rate limiter''\<rparr>
      | Some False \<Rightarrow> pl\<lparr>pl_scans_rate_limited := pl_scans_rate_limited pl + 1\<rparr>
      | Some True \<Rightarrow>
          if \<not> published then pl
          else (case record_scan (t_record clk) (pl_limiter pl) (mc_url config) 5 of
                  None \<Rightarrow> pl\<lparr>pl_last_error := Some ''rate limiter''\<rparr>
                | Some rl \<Rightarrow>
                    update_scan_scheduled croniter_next (t_update clk) (mc_id config)
                      (pl\<lparr>pl_limiter := rl, pl_scans_scheduled := pl_scans_scheduled pl + 1\<rparr>)))"

section \<open>Event bus client\<close>

text \<open>
  A message as it travels on the bus is the dictionary \<open>asdict(KafkaMessage)\<close>. Its
  \<open>data\<close> is either an ordinary payload or the payload of a dead-letter message, which
  wraps the original message, the topic it came from, the error text and the time of the
  failure.
\<close>

datatype kafka_value =
  KafkaValue (v_id: string) (v_timestamp: string) (v_type: string) (v_source: string)
    (v_data: kafka_data)
and kafka_data =
  Payload "(string \<times> string) list"
  | DlqData (original_message: kafka_value) (original_topic: string) (dlq_error: string)
      (failed_at: string)

definition dlq_topic :: string where
  "dlq_topic = ''dlq.failed-messages''"


text \<open>
  The client's state: \<open>kc_log\<close> lists what the broker has acknowledged (topic, key,
  message), \<open>kc_handled\<close> lists the messages handed to a handler, with their topic.
  \<open>kc_redis_up\<close> says whether the calls that update the counters in the cache succeed.
\<close>

record kafka_client =
  kc_producer_started :: bool
  kc_redis_up :: bool
  kc_log :: "(string \<times> string option \<times> kafka_value) list"
  kc_handled :: "(string \<times> kafka_value) list"
  kc_messages_produced :: nat
  kc_messages_consumed :: nat
  kc_production_errors :: nat
  kc_consumption_errors :: nat
  kc_last_error :: "string option"









text \<open>The dead-letter messages that the broker has acknowledged.\<close>

definition dead_letters :: "kafka_client \<Rightarrow> kafka_value list" where
  "dead_letters st = map (\<lambda>(topic, key, v). v) (filter (\<lambda>(topic, key, v). topic = dlq_topic) (kc_log st))"


section \<open>Example data\<close>

text \<open>Concrete snapshots and states on which the theorems below are instantiated.\<close>

definition empty_scan :: scan where
  "empty_scan =
     \<lparr>scan_technologies = \<lparr>detected = [], tech_scan_timestamp = None\<rparr>,
      scan_performance = \<lparr>perf_metrics = [], perf_issues = [], perf_scan_timestamp = None\<rparr>,
      scan_security = \<lparr>vulnerabilities = [], security_headers = [], ssl = \<lparr>fingerprint = None\<rparr>\<rparr>,
      scan_content = \<lparr>title = None, meta_description = None, content_hash = None\<rparr>,
      scan_infrastructure = \<lparr>server_software = None, ip_address = None, cdn_providers = []\<rparr>,
      scan_timestamp = None, scan_scan_id = None\<rparr>"

definition example_tech :: "string \<Rightarrow> string \<Rightarrow> technology" where
  "example_tech n v =
     \<lparr>tech_name = n, tech_version = Some v, tech_category = None, tech_confidence = None,
      tech_detection_method = None, tech_indicators = None\<rparr>"

definition scan_with_techs :: "technology list \<Rightarrow> scan" where
  "scan_with_techs ts = empty_scan\<lparr>scan_technologies := \<lparr>detected = ts, tech_scan_timestamp = None\<rparr>\<rparr>"

definition scan_with_load_time :: "rat \<Rightarrow> scan" where
  "scan_with_load_time v =
     empty_scan\<lparr>scan_performance :=
       \<lparr>perf_metrics = [(''load_time'', v)], perf_issues = [], perf_scan_timestamp = None\<rparr>\<rparr>"

definition scan_with_headers :: "(string \<times> string) list \<Rightarrow> scan" where
  "scan_with_headers hs =
     empty_scan\<lparr>scan_security :=
       \<lparr>vulnerabilities = [], security_headers = hs, ssl = \<lparr>fingerprint = None\<rparr>\<rparr>\<rparr>"

definition example_metrics :: detector_metrics where
  "example_metrics =
     \<lparr>m_changes_detected = 0, m_technology_changes = 0, m_performance_changes = 0,
      m_security_changes = 0, m_false_positives_filtered = 0, m_processing_time_total_ms = 0,
      m_last_error = None\<rparr>"

definition example_detector :: detector where
  "example_detector =
     \<lparr>det_metrics = example_metrics,
      det_redis_up = True, det_db_up = True, det_threshold_cache = [], det_monitoring_configs = [],
      det_scan_results = [], det_stored_changes = [], det_produced = []\<rparr>"

definition example_clock :: detect_clock where
  "example_clock = \<lparr>t_start = 0, t_evidence = 1, t_end = 2\<rparr>"

definition detector_with_thresholds :: "thresholds \<Rightarrow> detector" where
  "detector_with_thresholds ths =
     example_detector\<lparr>det_monitoring_configs :=
       [(''config-1'', Some \<lparr>performance_thresholds = Some ths, priority = None, other_options = []\<rparr>)]\<rparr>"

definition busy_detector :: detector where
  "busy_detector =
     (detector_with_thresholds [(''load_time'', 1)])
       \<lparr>det_threshold_cache := [(''config-1'', [(''load_time'', 1)], 9000)],
        det_metrics := example_metrics\<lparr>m_changes_detected := 7, m_performance_changes := 3\<rparr>\<rparr>"

definition stale_detector :: detector where
  "stale_detector =
     (detector_with_thresholds [(''load_time'', 1)])
       \<lparr>det_threshold_cache := [(''config-1'', [(''load_time'', 50)], 3600)]\<rparr>"

definition offline_detector :: detector where
  "offline_detector = (detector_with_thresholds [(''load_time'', 1)])\<lparr>det_redis_up := False\<rparr>"

definition busy_old_scan :: scan where
  "busy_old_scan =
     empty_scan
       \<lparr>scan_technologies :=
          \<lparr>detected = [example_tech ''react'' ''17.0.2'', example_tech ''nginx'' ''1.18.0''],
           tech_scan_timestamp = None\<rparr>,
        scan_performance :=
          \<lparr>perf_metrics = [(''load_time'', 1000)], perf_issues = [''render blocking''],
           perf_scan_timestamp = None\<rparr>,
        scan_infrastructure :=
          \<lparr>server_software = None, ip_address = None, cdn_providers = [''cloudflare'']\<rparr>\<rparr>"

definition busy_new_scan :: scan where
  "busy_new_scan =
     empty_scan
       \<lparr>scan_technologies :=
          \<lparr>detected = [example_tech ''react'' ''18.2.0'', example_tech ''vue'' ''3.0.0'',
                       example_tech ''webpack'' ''5.0.0''],
           tech_scan_timestamp = None\<rparr>,
        scan_performance :=
          \<lparr>perf_metrics = [(''load_time'', 1100)], perf_issues = [''large images'', ''unused css''],
           perf_scan_timestamp = None\<rparr>,
        scan_infrastructure :=
          \<lparr>server_software = None, ip_address = None, cdn_providers = [''fastly'', ''cloudflare'']\<rparr>\<rparr>"

definition later_clock :: detect_clock where
  "later_clock = \<lparr>t_start = 5000, t_evidence = 5001, t_end = 5003\<rparr>"

definition last_clock :: detect_clock where
  "last_clock = \<lparr>t_start = 9500, t_evidence = 9501, t_end = 9502\<rparr>"

definition previous_row :: scan_row where
  "previous_row =
     \<lparr>sr_id = ''scan-1'', sr_config_id = ''config-1'', sr_status = ''completed'',
      sr_scan_timestamp = 100, sr_result_summary = scan_with_load_time 1000\<rparr>"

definition current_row :: scan_row where
  "current_row =
     \<lparr>sr_id = ''scan-2'', sr_config_id = ''config-1'', sr_status = ''completed'',
      sr_scan_timestamp = 200, sr_result_summary = scan_with_load_time 1300\<rparr>"

definition current_event :: scan_completed_data where
  "current_event =
     \<lparr>data_config_id = Some ''config-1'', data_scan_id = ''scan-2'',
      data_result_summary = Some (scan_with_load_time 1300)\<rparr>"

definition example_rule :: alert_rule where
  "example_rule =
     \<lparr>rule_id = ''rule-1'', rule_name = ''Performance regression'', rule_severity = ''high'',
      rule_channels = [], rule_enabled = True, throttle_minutes = 60\<rparr>"

definition other_rule :: alert_rule where
  "other_rule =
     \<lparr>rule_id = ''rule-2'', rule_name = ''Any change'', rule_severity = ''low'',
      rule_channels = [], rule_enabled = True, throttle_minutes = 5\<rparr>"

definition example_engine :: alert_engine where
  "example_engine =
     \<lparr>ae_redis_up = True, ae_db_up = True, ae_throttle = [],
      ae_rules = [(''config-1'', [other_rule, example_rule])],
      ae_alerts = [], ae_notifications = [], ae_produced = [], ae_next_uuid = 0,
      ae_metrics = \<lparr>em_alerts_triggered = 0, em_alerts_sent = 0, em_alerts_failed = 0,
        em_notifications_sent = 0, em_notifications_failed = 0, em_rules_evaluated = 0\<rparr>\<rparr>"

definition example_change :: change where
  "example_change =
     (new_change performance_change)\<lparr>metric_name := Some ''load_time'', change_percent := Some 30\<rparr>"

definition example_message :: change_detected_data where
  "example_message =
     \<lparr>cd_config_id = Some ''config-1'', cd_change_type = Some ''performance_change'',
      cd_change_details = example_change\<rparr>"

definition ten_messages :: "(int \<times> change_detected_data) list" where
  "ten_messages = map (\<lambda>i. (int i * 300, example_message)) [1..<11]"

definition email_channel :: channel_config where
  "email_channel =
     \<lparr>channel_type = Some ''email'', channel_name = Some ''ops mail'',
      channel_settings = [(''smtp_host'', ''mail.example.com'')]\<rparr>"

definition slack_channel :: channel_config where
  "slack_channel =
     \<lparr>channel_type = Some ''slack'', channel_name = Some ''ops chat'',
      channel_settings = [(''webhook_url'', ''https://hooks.example.com/T1'')]\<rparr>"

definition example_alert :: alert where
  "example_alert =
     \<lparr>alert_id = 7, alert_config_id = ''config-1'', alert_rule_name = ''Performance regression'',
      alert_type = performance_change, alert_severity = ''high'', alert_details = example_change,
      triggered_at = 0\<rparr>"

definition engine_with_alert :: alert_engine where
  "engine_with_alert =
     example_engine\<lparr>ae_alerts :=
       [\<lparr>row_alert = example_alert, row_channels = [email_channel, slack_channel],
         notification_sent = False, notification_attempts = 0\<rparr>]\<rparr>"

definition slack_only_succeeds :: "channel_config \<Rightarrow> alert \<Rightarrow> send_result" where
  "slack_only_succeeds cfg a =
     (if channel_type cfg = Some ''slack''
      then \<lparr>result_status = ''sent'', result_error = None\<rparr>
      else \<lparr>result_status = ''failed'', result_error = Some ''connection refused''\<rparr>)"







section \<open>Properties of the noise filter and of the per-category detectors\<close>

lemma filter_noise_fst:
  "fst (filter_noise cs) =
     filter (\<lambda>c. \<not> is_noise c \<and> \<not> is_ignored_minor_update c \<and> \<not> is_small_performance_change c) cs"
  by (induction cs) (auto split: prod.splits)

lemma filter_noise_kept:
  "c \<in> set (fst (filter_noise cs)) \<Longrightarrow>
     c \<in> set cs \<and> \<not> is_noise c \<and> \<not> is_ignored_minor_update c \<and> \<not> is_small_performance_change c"
  by (simp add: filter_noise_fst)

lemma changes_detect_changes:
  "changes (fst (detect_changes ratio clk st old_scan new_scan config_id)) =
     fst (filter_noise
       (detect_technology_changes (scan_technologies old_scan) (scan_technologies new_scan)
        @ detect_performance_changes (fst (get_performance_thresholds (t_start clk) config_id st))
            (scan_performance old_scan) (scan_performance new_scan)
        @ detect_security_changes (scan_security old_scan) (scan_security new_scan)
        @ detect_content_changes ratio (scan_content old_scan) (scan_content new_scan)
        @ detect_infrastructure_changes (scan_infrastructure old_scan) (scan_infrastructure new_scan)))"
  by (simp add: detect_changes_def Let_def split: prod.splits)

lemma confidence_detect_changes:
  "detection_confidence (fst (detect_changes ratio clk st old_scan new_scan config_id)) =
     calculate_confidence (changes (fst (detect_changes ratio clk st old_scan new_scan config_id)))"
  by (simp add: detect_changes_def Let_def split: prod.splits)

lemma header_changes_from_old:
  "c \<in> set (header_changes old_headers new_headers) \<Longrightarrow>
   \<exists>h ov. (h, ov) \<in> set old_headers \<and> c = header_change h ov (map_of new_headers h)"
  by (induction old_headers new_headers rule: header_changes.induct)
     (auto split: if_splits)

lemma header_change_fields:
  "change_type (header_change h ov nv) = Some security_header_changed"
  "evidence_header (header_change h ov nv) = Some h"
  by (simp_all add: header_change_def evidence_header_def new_change_def)

lemma security_header_changed_origin:
  assumes "c \<in> set (detect_security_changes old_security new_security)"
    and "change_type c = Some security_header_changed"
  shows "c \<in> set (header_changes (security_headers old_security) (security_headers new_security))"
proof -
  have "change_type (vulnerability_added_change v) \<noteq> Some security_header_changed" for v
    by (simp add: vulnerability_added_change_def new_change_def)
  moreover have "change_type (vulnerability_fixed_change k v) \<noteq> Some security_header_changed" for k v
    by (simp add: vulnerability_fixed_change_def new_change_def)
  moreover have "c' \<in> set (ssl_changes a b) \<Longrightarrow> change_type c' \<noteq> Some security_header_changed"
    for c' a b
    by (auto simp: ssl_changes_def new_change_def split: if_splits)
  ultimately show ?thesis
    using assms by (auto simp: detect_security_changes_def Let_def)
qed

lemma those_eq_Some: "those xs = Some ys \<Longrightarrow> xs = map Some ys"
  by (induction xs arbitrary: ys) (auto split: option.splits)

lemma Some_eq_map_option: "(Some y = map_option f xo) = (\<exists>z. xo = Some z \<and> y = f z)"
  by (cases xo) auto

lemma those_map_total:
  "(\<And>x. x \<in> set xs \<Longrightarrow> f x = Some (g x)) \<Longrightarrow> those (map f xs) = Some (map g xs)"
  by (induction xs) auto

lemma added_change_fields:
  "ctype (added_change n t) = technology_change" "change_type (added_change n t) = Some added"
  "technology_name (added_change n t) = Some n"
  by (simp_all add: added_change_def new_change_def)

lemma removed_change_fields:
  "ctype (removed_change ls n t) = technology_change" "change_type (removed_change ls n t) = Some removed"
  "technology_name (removed_change ls n t) = Some n"
  by (simp_all add: removed_change_def new_change_def)

lemma version_change_fields:
  "ctype (version_change n ot nt ov nv) = technology_change"
  "change_type (version_change n ot nt ov nv) = Some version_changed"
  "technology_name (version_change n ot nt ov nv) = Some n"
  "old_version (version_change n ot nt ov nv) = Some ov"
  "new_version (version_change n ot nt ov nv) = Some nv"
  "impact_assessment (version_change n ot nt ov nv) = Some (assess_version_impact n ov nv)"
  by (simp_all add: version_change_def new_change_def)

lemma version_changes_for_cases:
  "version_changes_for old_ts new_ts n = Some cs \<Longrightarrow>
     cs = [] \<or> (\<exists>ot nt ov nv. cs = [version_change n ot nt ov nv])"
  by (auto simp: version_changes_for_def Let_def split: option.splits if_splits)

lemma measured_change_fields:
  "ctype (measured_change m ov nv pct th ot nt) = performance_change"
  "change_type (measured_change m ov nv pct th ot nt) = None"
  "change_percent (measured_change m ov nv pct th ot nt) = Some pct"
  by (simp_all add: measured_change_def new_change_def split: prod.splits)

lemma metric_change_cases:
  "metric_change ths old_perf new_perf m = [] \<or>
   (\<exists>ov nv pct th. metric_change ths old_perf new_perf m =
      [measured_change m ov nv pct th (perf_scan_timestamp old_perf) (perf_scan_timestamp new_perf)])"
  by (auto simp: metric_change_def Let_def split: prod.splits option.splits)

lemma metric_change_kinds:
  "c \<in> set (metric_change ths old_perf new_perf m) \<Longrightarrow>
     ctype c = performance_change \<and> change_type c = None"
  using metric_change_cases [of ths old_perf new_perf m]
  by (auto simp: measured_change_fields)

lemma issue_change_fields:
  "ctype (issue_change k s i) = performance_change" "change_type (issue_change k s i) = Some k"
  by (simp_all add: issue_change_def new_change_def)

lemma performance_changes_kinds:
  "c \<in> set (detect_performance_changes ths old_perf new_perf) \<Longrightarrow>
     ctype c = performance_change \<and> change_type c \<in> {None, Some issue_added, Some issue_resolved}"
  by (auto simp: detect_performance_changes_def Let_def issue_change_fields dest: metric_change_kinds)


lemma technology_changes_kinds:
  assumes "c \<in> set (detect_technology_changes old_tech new_tech)"
  shows "ctype c = technology_change \<and> change_type c \<in> {Some added, Some removed, Some version_changed}"
proof (cases "technology_changes_raw old_tech new_tech")
  case None
  with assms show ?thesis by (simp add: detect_technology_changes_def)
next
  case (Some cs)
  then obtain a r v where
    a: "map (\<lambda>n. map_option (added_change n) (first_named n (detected new_tech)))
          (filter (\<lambda>n. n \<notin> set (py_set (map tech_name (detected old_tech))))
             (py_set (map tech_name (detected new_tech)))) = map Some a"
    and r: "map (\<lambda>n. map_option (removed_change (tech_scan_timestamp old_tech) n)
                        (first_named n (detected old_tech)))
          (filter (\<lambda>n. n \<notin> set (py_set (map tech_name (detected new_tech))))
             (py_set (map tech_name (detected old_tech)))) = map Some r"
    and v: "map (version_changes_for (detected old_tech) (detected new_tech))
          (filter (\<lambda>n. n \<in> set (py_set (map tech_name (detected new_tech))))
             (py_set (map tech_name (detected old_tech)))) = map Some v"
    and cs: "cs = a @ r @ concat v"
    by (auto simp: technology_changes_raw_def Let_def split: option.splits dest!: those_eq_Some)
  from assms Some cs have "c \<in> set a \<or> c \<in> set r \<or> (\<exists>l \<in> set v. c \<in> set l)"
    by (auto simp: detect_technology_changes_def)
  then show ?thesis
  proof (elim disjE bexE)
    assume "c \<in> set a"
    then have "Some c \<in> set (map Some a)" by simp
    then obtain n t where "c = added_change n t"
      unfolding a [symmetric] by (auto simp: Some_eq_map_option)
    then show ?thesis by (simp add: added_change_fields)
  next
    assume "c \<in> set r"
    then have "Some c \<in> set (map Some r)" by simp
    then obtain ls n t where "c = removed_change ls n t"
      unfolding r [symmetric] by (auto simp: Some_eq_map_option)
    then show ?thesis by (simp add: removed_change_fields)
  next
    fix l assume "l \<in> set v" and cl: "c \<in> set l"
    then have "Some l \<in> set (map Some v)" by simp
    then obtain n where "version_changes_for (detected old_tech) (detected new_tech) n = Some l"
      unfolding v [symmetric] by auto
    from version_changes_for_cases [OF this] cl show ?thesis
      by (auto simp: version_change_fields)
  qed
qed

lemma header_change_kind: "ctype (header_change h ov nv) = security_change"
  by (simp add: header_change_def new_change_def)

lemma security_changes_kinds:
  "c \<in> set (detect_security_changes old_security new_security) \<Longrightarrow>
     ctype c = security_change"
  by (auto simp: detect_security_changes_def Let_def vulnerability_added_change_def
      vulnerability_fixed_change_def ssl_changes_def new_change_def header_change_kind
      dest!: header_changes_from_old split: if_splits)

lemma content_changes_kinds:
  "c \<in> set (detect_content_changes ratio old_content new_content) \<Longrightarrow>
     ctype c = content_change
     \<and> change_type c \<in> {Some title_changed, Some meta_description_changed, Some content_hash_changed}"
  by (auto simp: detect_content_changes_def Let_def new_change_def split: if_splits)

lemma infrastructure_changes_kinds:
  "c \<in> set (detect_infrastructure_changes old_infra new_infra) \<Longrightarrow>
     ctype c = infrastructure_change
     \<and> change_type c \<in> {Some server_software_changed, Some ip_address_changed, Some cdn_changed}"
  by (auto simp: detect_infrastructure_changes_def Let_def new_change_def split: if_splits)

lemma security_changes_subtypes:
  "c \<in> set (detect_security_changes old_security new_security) \<Longrightarrow>
     change_type c \<in> {Some vulnerability_added, Some vulnerability_fixed, Some security_header_changed,
                       Some ssl_certificate_changed}"
  by (auto simp: detect_security_changes_def Let_def vulnerability_added_change_def
      vulnerability_fixed_change_def ssl_changes_def new_change_def header_change_fields
      dest!: header_changes_from_old split: if_splits)

section \<open>Properties of version parsing and of technology detection\<close>

lemma parse_version_major: "parse_version v = Some (a # as) \<Longrightarrow> major_of v = Some a"
  by (auto simp: parse_version_def major_of_def dest!: those_eq_Some split: list.splits)

lemma significant_parsed:
  "parse_version ov = Some (a # as) \<Longrightarrow> parse_version nv = Some (b # bs) \<Longrightarrow>
     is_significant_version_change ov nv = (a \<noteq> b)"
  by (simp add: is_significant_version_change_def)

lemma minor_change_parsed:
  "parse_version ov = Some (a # as) \<Longrightarrow> parse_version nv = Some (b # bs) \<Longrightarrow> a \<noteq> b \<Longrightarrow>
     \<not> is_minor_version_change ov nv"
  by (simp add: is_minor_version_change_def)

lemma major_change_parsed:
  "parse_version ov = Some (a # as) \<Longrightarrow> parse_version nv = Some (b # bs) \<Longrightarrow>
     is_major_version_change ov nv = (a \<noteq> b)"
  by (simp add: is_major_version_change_def parse_version_major)

lemma first_named_Some_name: "first_named n ts = Some t \<Longrightarrow> tech_name t = n \<and> t \<in> set ts"
  by (auto simp: first_named_def find_Some_iff)

lemma first_named_total: "n \<in> set (map tech_name ts) \<Longrightarrow> \<exists>t. first_named n ts = Some t"
  by (cases "first_named n ts") (auto simp: first_named_def find_None_iff)

lemma version_changes_for_total:
  "n \<in> set (map tech_name old_ts) \<Longrightarrow> n \<in> set (map tech_name new_ts) \<Longrightarrow>
     \<exists>cs. version_changes_for old_ts new_ts n = Some cs"
  using first_named_total [of n old_ts] first_named_total [of n new_ts]
  by (auto simp: version_changes_for_def Let_def)

lemma version_changes_for_names:
  "version_changes_for old_ts new_ts n = Some cs \<Longrightarrow> c \<in> set cs \<Longrightarrow>
     technology_name c = Some n \<and> change_type c = Some version_changed"
  by (auto dest!: version_changes_for_cases simp: version_change_fields)

lemma technology_changes_eq:
  "detect_technology_changes old_tech new_tech =
     map (\<lambda>n. added_change n (the (first_named n (detected new_tech))))
       (filter (\<lambda>n. n \<notin> set (py_set (map tech_name (detected old_tech))))
          (py_set (map tech_name (detected new_tech))))
     @ map (\<lambda>n. removed_change (tech_scan_timestamp old_tech) n (the (first_named n (detected old_tech))))
       (filter (\<lambda>n. n \<notin> set (py_set (map tech_name (detected new_tech))))
          (py_set (map tech_name (detected old_tech))))
     @ concat (map (\<lambda>n. the (version_changes_for (detected old_tech) (detected new_tech) n))
       (filter (\<lambda>n. n \<in> set (py_set (map tech_name (detected new_tech))))
          (py_set (map tech_name (detected old_tech)))))"
proof -
  have a: "those (map (\<lambda>n. map_option (added_change n) (first_named n (detected new_tech)))
          (filter (\<lambda>n. n \<notin> set (py_set (map tech_name (detected old_tech))))
             (py_set (map tech_name (detected new_tech)))))
      = Some (map (\<lambda>n. added_change n (the (first_named n (detected new_tech))))
          (filter (\<lambda>n. n \<notin> set (py_set (map tech_name (detected old_tech))))
             (py_set (map tech_name (detected new_tech)))))"
  proof (rule those_map_total)
    fix x assume "x \<in> set (filter (\<lambda>n. n \<notin> set (py_set (map tech_name (detected old_tech))))
             (py_set (map tech_name (detected new_tech))))"
    then have "x \<in> set (map tech_name (detected new_tech))" by (simp add: py_set_def)
    from first_named_total [OF this]
    show "map_option (added_change x) (first_named x (detected new_tech))
        = Some (added_change x (the (first_named x (detected new_tech))))" by auto
  qed
  have r: "those (map (\<lambda>n. map_option (removed_change (tech_scan_timestamp old_tech) n)
                        (first_named n (detected old_tech)))
          (filter (\<lambda>n. n \<notin> set (py_set (map tech_name (detected new_tech))))
             (py_set (map tech_name (detected old_tech)))))
      = Some (map (\<lambda>n. removed_change (tech_scan_timestamp old_tech) n (the (first_named n (detected old_tech))))
          (filter (\<lambda>n. n \<notin> set (py_set (map tech_name (detected new_tech))))
             (py_set (map tech_name (detected old_tech)))))"
  proof (rule those_map_total)
    fix x assume "x \<in> set (filter (\<lambda>n. n \<notin> set (py_set (map tech_name (detected new_tech))))
             (py_set (map tech_name (detected old_tech))))"
    then have "x \<in> set (map tech_name (detected old_tech))" by (simp add: py_set_def)
    from first_named_total [OF this]
    show "map_option (removed_change (tech_scan_timestamp old_tech) x) (first_named x (detected old_tech))
        = Some (removed_change (tech_scan_timestamp old_tech) x (the (first_named x (detected old_tech))))"
      by auto
  qed
  have v: "those (map (version_changes_for (detected old_tech) (detected new_tech))
          (filter (\<lambda>n. n \<in> set (py_set (map tech_name (detected new_tech))))
             (py_set (map tech_name (detected old_tech)))))
      = Some (map (\<lambda>n. the (version_changes_for (detected old_tech) (detected new_tech) n))
          (filter (\<lambda>n. n \<in> set (py_set (map tech_name (detected new_tech))))
             (py_set (map tech_name (detected old_tech)))))"
  proof (rule those_map_total)
    fix x assume "x \<in> set (filter (\<lambda>n. n \<in> set (py_set (map tech_name (detected new_tech))))
             (py_set (map tech_name (detected old_tech))))"
    then have "x \<in> set (map tech_name (detected old_tech))" "x \<in> set (map tech_name (detected new_tech))"
      by (simp_all add: py_set_def)
    from version_changes_for_total [OF this]
    show "version_changes_for (detected old_tech) (detected new_tech) x
        = Some (the (version_changes_for (detected old_tech) (detected new_tech) x))" by auto
  qed
  show ?thesis
    unfolding detect_technology_changes_def technology_changes_raw_def Let_def a r v by simp
qed

lemma filter_concat_by_name:
  assumes "distinct ns"
    and "\<And>m c. m \<in> set ns \<Longrightarrow> c \<in> set (g m) \<Longrightarrow> technology_name c = Some m"
  shows "filter (\<lambda>c. Q c \<and> technology_name c = Some n) (concat (map g ns)) =
           (if n \<in> set ns then filter Q (g n) else [])"
  using assms
proof (induction ns)
  case Nil
  then show ?case by simp
next
  case (Cons m ns)
  have named: "\<And>c. c \<in> set (g m) \<Longrightarrow> technology_name c = Some m"
    using Cons.prems(2) by simp
  have head: "filter (\<lambda>c. Q c \<and> technology_name c = Some n) (g m) = (if m = n then filter Q (g m) else [])"
    using named by (auto intro: filter_cong simp: filter_empty_conv)
  have tail: "filter (\<lambda>c. Q c \<and> technology_name c = Some n) (concat (map g ns)) =
           (if n \<in> set ns then filter Q (g n) else [])"
    using Cons by simp
  show ?case
    using Cons.prems(1) by (auto simp: head tail)
qed

lemma no_version_changes_elsewhere:
  assumes "\<And>c. c \<in> set cs \<Longrightarrow> change_type c \<noteq> Some version_changed"
  shows "reported_version_changes cs n = []"
  using assms by (auto simp: reported_version_changes_def filter_empty_conv)

lemma reported_version_changes_append:
  "reported_version_changes (xs @ ys) n = reported_version_changes xs n @ reported_version_changes ys n"
  by (simp add: reported_version_changes_def)

lemma reported_version_changes_technology:
  "reported_version_changes (detect_technology_changes old_tech new_tech) n =
     (if n \<in> set (map tech_name (detected old_tech)) \<and> n \<in> set (map tech_name (detected new_tech))
      then the (version_changes_for (detected old_tech) (detected new_tech) n) else [])"
proof -
  let ?V = "filter (\<lambda>n. n \<in> set (py_set (map tech_name (detected new_tech))))
              (py_set (map tech_name (detected old_tech)))"
  let ?g = "\<lambda>n. the (version_changes_for (detected old_tech) (detected new_tech) n)"
  have g_named: "technology_name c = Some m \<and> change_type c = Some version_changed"
    if "m \<in> set ?V" "c \<in> set (?g m)" for m c
  proof -
    from that(1) have "m \<in> set (map tech_name (detected old_tech))"
      "m \<in> set (map tech_name (detected new_tech))" by (simp_all add: py_set_def)
    from version_changes_for_total [OF this] obtain cs
      where "version_changes_for (detected old_tech) (detected new_tech) m = Some cs" by blast
    with that(2) version_changes_for_names [of "detected old_tech" "detected new_tech" m cs c]
    show ?thesis by simp
  qed
  have added_part: "reported_version_changes
      (map (\<lambda>n. added_change n (the (first_named n (detected new_tech))))
        (filter (\<lambda>n. n \<notin> set (py_set (map tech_name (detected old_tech))))
           (py_set (map tech_name (detected new_tech))))) n = []"
    by (rule no_version_changes_elsewhere) (auto simp: added_change_fields)
  have removed_part: "reported_version_changes
      (map (\<lambda>n. removed_change (tech_scan_timestamp old_tech) n (the (first_named n (detected old_tech))))
        (filter (\<lambda>n. n \<notin> set (py_set (map tech_name (detected new_tech))))
           (py_set (map tech_name (detected old_tech))))) n = []"
    by (rule no_version_changes_elsewhere) (auto simp: removed_change_fields)
  have "distinct ?V" by (simp add: py_set_def)
  then have "filter (\<lambda>c. change_type c = Some version_changed \<and> technology_name c = Some n)
        (concat (map ?g ?V)) =
      (if n \<in> set ?V then filter (\<lambda>c. change_type c = Some version_changed) (?g n) else [])"
    using g_named by (intro filter_concat_by_name) auto
  moreover have "filter (\<lambda>c. change_type c = Some version_changed) (?g n) = ?g n" if "n \<in> set ?V"
    using g_named [OF that] by (simp add: filter_id_conv)
  ultimately have version_part: "reported_version_changes (concat (map ?g ?V)) n =
      (if n \<in> set ?V then ?g n else [])"
    by (simp add: reported_version_changes_def)
  show ?thesis
    unfolding technology_changes_eq reported_version_changes_append added_part removed_part version_part
    by (simp add: py_set_def)
qed

lemma reported_version_changes_all:
  "reported_version_changes
     (detect_technology_changes old_tech new_tech
      @ detect_performance_changes ths old_perf new_perf
      @ detect_security_changes old_sec new_sec
      @ detect_content_changes ratio old_cont new_cont
      @ detect_infrastructure_changes old_infra new_infra) n =
   reported_version_changes (detect_technology_changes old_tech new_tech) n"
proof -
  have "reported_version_changes (detect_performance_changes ths old_perf new_perf) n = []"
    by (rule no_version_changes_elsewhere) (auto dest!: performance_changes_kinds)
  moreover have "reported_version_changes (detect_security_changes old_sec new_sec) n = []"
    by (rule no_version_changes_elsewhere) (auto dest!: security_changes_subtypes)
  moreover have "reported_version_changes (detect_content_changes ratio old_cont new_cont) n = []"
    by (rule no_version_changes_elsewhere) (auto dest!: content_changes_kinds)
  moreover have "reported_version_changes (detect_infrastructure_changes old_infra new_infra) n = []"
    by (rule no_version_changes_elsewhere) (auto dest!: infrastructure_changes_kinds)
  ultimately show ?thesis
    by (simp add: reported_version_changes_append)
qed

lemma reported_version_changes_filtered:
  "reported_version_changes (fst (filter_noise cs)) n = fst (filter_noise (reported_version_changes cs n))"
  by (auto simp: filter_noise_fst reported_version_changes_def intro: filter_cong)

lemma reported_version_changes_detect_changes:
  "reported_version_changes (changes (fst (detect_changes ratio clk st old_scan new_scan config_id))) n =
     fst (filter_noise
       (if n \<in> set (map tech_name (detected (scan_technologies old_scan)))
           \<and> n \<in> set (map tech_name (detected (scan_technologies new_scan)))
        then the (version_changes_for (detected (scan_technologies old_scan))
                    (detected (scan_technologies new_scan)) n)
        else []))"
  unfolding changes_detect_changes reported_version_changes_filtered reported_version_changes_all
    reported_version_changes_technology ..

lemma version_change_kept:
  "fst (filter_noise [version_change n ot nt ov nv]) =
     (if name_is_noisy n \<or> (n \<in> set ignore_minor_updates \<and> is_minor_version_change ov nv)
      then [] else [version_change n ot nt ov nv])"
  by (simp add: filter_noise_fst is_noise_def is_ignored_minor_update_def is_small_performance_change_def
      version_change_fields name_is_noisy_def get_or_def)

lemma escalated_impact:
  assumes "is_major_version_change ov nv"
  shows "(assess_tech_impact n = ''low'' \<longrightarrow> assess_version_impact n ov nv = ''medium'')
       \<and> (assess_tech_impact n = ''medium'' \<longrightarrow> assess_version_impact n ov nv = ''high'')
       \<and> (assess_tech_impact n = ''high'' \<longrightarrow> assess_version_impact n ov nv = ''critical'')
       \<and> (assess_tech_impact n = ''critical'' \<longrightarrow> assess_version_impact n ov nv = ''critical'')"
  using assms by (simp add: assess_version_impact_def Let_def impact_levels_def get_or_def)

lemma base_impact_level: "assess_tech_impact n \<in> set impact_levels"
proof (cases "map_of technology_importance (py_lower n)")
  case None
  then show ?thesis by (simp add: assess_tech_impact_def get_or_def impact_levels_def)
next
  case (Some lvl)
  then have "(py_lower n, lvl) \<in> set technology_importance" by (rule map_of_SomeD)
  then have "lvl \<in> set impact_levels"
    by (auto simp: technology_importance_def impact_levels_def)
  with Some show ?thesis by (simp add: assess_tech_impact_def get_or_def)
qed

lemma filter_noise_nothing: "fst (filter_noise []) = []"
  by simp

section \<open>Properties of alert creation and of the rule loop\<close>

lemma map_of_update_other:
  "k' \<noteq> k \<Longrightarrow> map_of (AList.update k v al) k' = map_of al k'"
  by (simp add: update_conv')

lemma map_of_update_same: "map_of (AList.update k v al) k = Some v"
  by (simp add: update_conv')

lemma create_alert_throttled:
  "is_throttled now st config_id (rule_id rule) \<Longrightarrow>
     create_alert now config_id rule ch st = (None, st)"
  by (simp add: create_alert_def)

lemma create_alert_frame:
  assumes "create_alert now config_id rule ch st = (res, st')"
  shows "ae_redis_up st' = ae_redis_up st \<and> ae_db_up st' = ae_db_up st \<and> ae_rules st' = ae_rules st"
  using assms
  by (auto simp: create_alert_def Let_def store_alert_def set_throttle_def split: if_splits option.splits)

lemma create_alert_other_key:
  assumes "create_alert now config_id rule ch st = (res, st')"
    and "(config_id, rule_id rule) \<noteq> k"
  shows "map_of (ae_throttle st') k = map_of (ae_throttle st) k"
  using assms
  by (auto simp: create_alert_def Let_def store_alert_def set_throttle_def map_of_update_other
      split: if_splits option.splits)

lemma create_alert_config:
  "create_alert now config_id rule ch st = (Some a, st') \<Longrightarrow> alert_config_id a = config_id"
  by (auto simp: create_alert_def Let_def split: if_splits option.splits)

lemma create_alert_succeeds:
  assumes "ae_db_up st" and "\<not> is_throttled now st config_id (rule_id rule)"
  shows "\<exists>a st'. create_alert now config_id rule ch st = (Some a, st')"
  using assms by (simp add: create_alert_def Let_def store_alert_def)

lemma create_alert_sets_mark:
  assumes "create_alert now config_id rule ch st = (Some a, st')"
    and "ae_redis_up st" and "0 < throttle_minutes rule"
  shows "map_of (ae_throttle st') (config_id, rule_id rule) = Some (now + throttle_minutes rule * 60)"
  using assms
  by (auto simp: create_alert_def Let_def store_alert_def set_throttle_def map_of_update_same
      split: if_splits option.splits)

lemma create_alert_keeps_mark:
  assumes "create_alert now config_id rule ch st = (Some a, st')"
    and "\<not> 0 < throttle_minutes rule"
  shows "ae_throttle st' = ae_throttle st"
  using assms
  by (auto simp: create_alert_def Let_def store_alert_def set_throttle_def
      split: if_splits option.splits)

lemma trigger_alert_frame:
  "ae_redis_up (trigger_alert a st) = ae_redis_up st" "ae_db_up (trigger_alert a st) = ae_db_up st"
  "ae_rules (trigger_alert a st) = ae_rules st" "ae_throttle (trigger_alert a st) = ae_throttle st"
  by (simp_all add: trigger_alert_def)

lemma evaluate_rule_frame:
  assumes "evaluate_rule matches rule ch st = (m, st')"
  shows "ae_redis_up st' = ae_redis_up st" "ae_db_up st' = ae_db_up st"
    "ae_rules st' = ae_rules st" "ae_throttle st' = ae_throttle st"
  using assms by (auto simp: evaluate_rule_def split: if_splits)

lemma evaluate_rule_result:
  "fst (evaluate_rule matches rule ch st) = (rule_enabled rule \<and> matches rule ch)"
  by (simp add: evaluate_rule_def)

lemma is_throttled_cong:
  "ae_redis_up st' = ae_redis_up st \<Longrightarrow> map_of (ae_throttle st') (c, r) = map_of (ae_throttle st) (c, r) \<Longrightarrow>
     is_throttled now st' c r = is_throttled now st c r"
  by (simp add: is_throttled_def)

lemma alerts_for_Cons:
  "alerts_for c rid ((r, a) # out) =
     (if r = rid \<and> alert_config_id a = c then (r, a) # alerts_for c rid out else alerts_for c rid out)"
  by (simp add: alerts_for_def)

lemma alerts_for_append:
  "alerts_for c rid (xs @ ys) = alerts_for c rid xs @ alerts_for c rid ys"
  by (simp add: alerts_for_def)

lemma alerts_for_Nil: "alerts_for c rid [] = []"
  by (simp add: alerts_for_def)

lemma evaluate_rules_window:
  assumes "evaluate_rules matches now c' ch rules st = (out, st')"
    and "ae_redis_up st" and "map_of (ae_throttle st) (c, rid) = Some e" and "now < e"
  shows "ae_redis_up st' \<and> ae_db_up st' = ae_db_up st \<and> ae_rules st' = ae_rules st
       \<and> map_of (ae_throttle st') (c, rid) = Some e \<and> alerts_for c rid out = []"
  using assms
proof (induction rules arbitrary: st out st')
  case Nil
  then show ?case by (simp add: alerts_for_Nil)
next
  case (Cons rule rules)
  obtain m st1 where ev: "evaluate_rule matches rule ch st = (m, st1)"
    by (cases "evaluate_rule matches rule ch st")
  note f1 = evaluate_rule_frame [OF ev]
  have up1: "ae_redis_up st1" and mark1: "map_of (ae_throttle st1) (c, rid) = Some e"
    using f1 Cons.prems by simp_all
  show ?case
  proof (cases m)
    case False
    with ev Cons.prems(1) have "evaluate_rules matches now c' ch rules st1 = (out, st')" by simp
    from Cons.IH [OF this up1 mark1 Cons.prems(4)] f1 show ?thesis by simp
  next
    case True
    obtain res st2 where cr: "create_alert now c' rule ch st1 = (res, st2)"
      by (cases "create_alert now c' rule ch st1")
    note f2 = create_alert_frame [OF cr]
    have up2: "ae_redis_up st2" using f2 up1 by simp
    show ?thesis
    proof (cases "(c', rule_id rule) = (c, rid)")
      case same: True
      then have "is_throttled now st1 c' (rule_id rule)"
        using up1 mark1 Cons.prems(4) by (simp add: is_throttled_def)
      from create_alert_throttled [OF this] cr have "res = None" "st2 = st1" by simp_all
      with ev True cr Cons.prems(1)
      have "evaluate_rules matches now c' ch rules st1 = (out, st')" by simp
      from Cons.IH [OF this up1 mark1 Cons.prems(4)] f1 show ?thesis by simp
    next
      case other: False
      from create_alert_other_key [OF cr other] mark1
      have mark2: "map_of (ae_throttle st2) (c, rid) = Some e" by simp
      show ?thesis
      proof (cases res)
        case None
        with ev True cr Cons.prems(1)
        have "evaluate_rules matches now c' ch rules st2 = (out, st')" by simp
        from Cons.IH [OF this up2 mark2 Cons.prems(4)] f1 f2 show ?thesis by simp
      next
        case (Some a)
        obtain rest st3 where rec: "evaluate_rules matches now c' ch rules (trigger_alert a st2) = (rest, st3)"
          by (cases "evaluate_rules matches now c' ch rules (trigger_alert a st2)")
        with ev True cr Some Cons.prems(1)
        have out: "out = (rule_id rule, a) # rest" and st': "st' = st3" by simp_all
        have up3: "ae_redis_up (trigger_alert a st2)"
          and mark3: "map_of (ae_throttle (trigger_alert a st2)) (c, rid) = Some e"
          using up2 mark2 by (simp_all add: trigger_alert_frame)
        from create_alert_config cr Some have "alert_config_id a = c'" by simp
        with other have "alerts_for c rid out = alerts_for c rid rest"
          unfolding out by (auto simp: alerts_for_Cons)
        with Cons.IH [OF rec up3 mark3 Cons.prems(4)] f1 f2 st' show ?thesis
          by (simp add: trigger_alert_frame)
      qed
    qed
  qed
qed

lemma handle_change_detected_window:
  assumes "handle_change_detected matches now data st = (out, st')"
    and "ae_redis_up st" and "map_of (ae_throttle st) (c, rid) = Some e" and "now < e"
  shows "ae_redis_up st' \<and> ae_db_up st' = ae_db_up st \<and> ae_rules st' = ae_rules st
       \<and> map_of (ae_throttle st') (c, rid) = Some e \<and> alerts_for c rid out = []"
proof (cases "\<not> truthy (cd_config_id data) \<or> \<not> truthy (cd_change_type data)")
  case True
  with assms show ?thesis by (auto simp: handle_change_detected_def alerts_for_Nil)
next
  case False
  with assms(1) have "evaluate_rules matches now (get_or (cd_config_id data) []) (cd_change_details data)
      (get_alert_rules st (get_or (cd_config_id data) [])) st = (out, st')"
    by (simp add: handle_change_detected_def Let_def)
  from evaluate_rules_window [OF this assms(2-4)] show ?thesis .
qed

lemma consume_changes_window:
  assumes "consume_changes matches msgs st = (out, st')"
    and "ae_redis_up st" and "map_of (ae_throttle st) (c, rid) = Some e"
    and "\<forall>(t, d) \<in> set msgs. t < e"
  shows "ae_redis_up st' \<and> ae_db_up st' = ae_db_up st \<and> ae_rules st' = ae_rules st
       \<and> map_of (ae_throttle st') (c, rid) = Some e \<and> alerts_for c rid out = []"
  using assms
proof (induction msgs arbitrary: st out st')
  case Nil
  then show ?case by (simp add: alerts_for_Nil)
next
  case (Cons msg msgs)
  obtain now data where msg: "msg = (now, data)" by (cases msg)
  obtain out1 st1 where h: "handle_change_detected matches now data st = (out1, st1)"
    by (cases "handle_change_detected matches now data st")
  obtain out2 st2 where r: "consume_changes matches msgs st1 = (out2, st2)"
    by (cases "consume_changes matches msgs st1")
  from Cons.prems(1) msg h r have out: "out = out1 @ out2" and st': "st' = st2" by simp_all
  from Cons.prems(4) msg have now: "now < e" and rest: "\<forall>(t, d) \<in> set msgs. t < e" by simp_all
  from handle_change_detected_window [OF h Cons.prems(2,3) now]
  have s1: "ae_redis_up st1" "ae_db_up st1 = ae_db_up st" "ae_rules st1 = ae_rules st"
    "map_of (ae_throttle st1) (c, rid) = Some e" "alerts_for c rid out1 = []" by simp_all
  from Cons.IH [OF r s1(1) s1(4) rest] s1 out st' show ?case
    by (simp add: alerts_for_append)
qed

lemma evaluate_rules_ids:
  assumes "evaluate_rules matches now c ch rules st = (out, st')"
  shows "fst ` set out \<subseteq> rule_id ` set rules"
  using assms
proof (induction rules arbitrary: st out st')
  case Nil
  then show ?case by simp
next
  case (Cons rule rules)
  obtain m st1 where ev: "evaluate_rule matches rule ch st = (m, st1)"
    by (cases "evaluate_rule matches rule ch st")
  obtain res st2 where cr: "create_alert now c rule ch st1 = (res, st2)"
    by (cases "create_alert now c rule ch st1")
  show ?case
  proof (cases "m \<and> res \<noteq> None")
    case False
    with ev cr Cons.prems obtain stx where "evaluate_rules matches now c ch rules stx = (out, st')"
      by (cases m; cases res) auto
    from Cons.IH [OF this] show ?thesis by auto
  next
    case True
    then obtain a where a: "res = Some a" and m: m by auto
    obtain rest st3 where rec: "evaluate_rules matches now c ch rules (trigger_alert a st2) = (rest, st3)"
      by (cases "evaluate_rules matches now c ch rules (trigger_alert a st2)")
    with ev m cr a Cons.prems have "out = (rule_id rule, a) # rest" by simp
    with Cons.IH [OF rec] show ?thesis by auto
  qed
qed

lemma alerts_for_foreign_rules:
  assumes "evaluate_rules matches now c ch rules st = (out, st')" and "rid \<notin> rule_id ` set rules"
  shows "alerts_for c rid out = []"
proof -
  from evaluate_rules_ids [OF assms(1)] assms(2) have "rid \<notin> fst ` set out" by blast
  then show ?thesis by (force simp: alerts_for_def filter_empty_conv image_iff)
qed

lemma evaluate_rules_one:
  assumes "ae_redis_up st" and "ae_db_up st" and "\<not> is_throttled now st c (rule_id r)"
    and "r \<in> set rules" and "distinct (map rule_id rules)"
    and "rule_enabled r" and "matches r ch"
  shows "length (alerts_for c (rule_id r) (fst (evaluate_rules matches now c ch rules st))) = 1"
  using assms
proof (induction rules arbitrary: st)
  case Nil
  then show ?case by simp
next
  case (Cons rule rules)
  obtain m st1 where ev: "evaluate_rule matches rule ch st = (m, st1)"
    by (cases "evaluate_rule matches rule ch st")
  note f1 = evaluate_rule_frame [OF ev]
  have m_def: "m = (rule_enabled rule \<and> matches rule ch)"
    using evaluate_rule_result [of matches rule ch st] ev by simp
  obtain res st2 where cr: "create_alert now c rule ch st1 = (res, st2)"
    by (cases "create_alert now c rule ch st1")
  note f2 = create_alert_frame [OF cr]
  have free1: "\<not> is_throttled now st1 c (rule_id r)"
    using Cons.prems(3) is_throttled_cong [of st1 st c "rule_id r" now] f1 by simp
  show ?case
  proof (cases "rule = r")
    case True
    with Cons.prems m_def have m: m by simp
    from create_alert_succeeds [of st1 now c rule ch] free1 True f1 Cons.prems(2) cr
    obtain a where a: "res = Some a" by auto
    obtain rest st3 where rec: "evaluate_rules matches now c ch rules (trigger_alert a st2) = (rest, st3)"
      by (cases "evaluate_rules matches now c ch rules (trigger_alert a st2)")
    with ev m cr a have out: "fst (evaluate_rules matches now c ch (rule # rules) st) = (rule_id rule, a) # rest"
      by simp
    from Cons.prems(5) True have "rule_id r \<notin> rule_id ` set rules" by auto
    from alerts_for_foreign_rules [OF rec this] have "alerts_for c (rule_id r) rest = []" .
    moreover from create_alert_config cr a have "alert_config_id a = c" by simp
    ultimately show ?thesis
      unfolding out using True by (simp add: alerts_for_Cons)
  next
    case False
    with Cons.prems(4) have r_in: "r \<in> set rules" by simp
    with Cons.prems(5) have other: "rule_id rule \<noteq> rule_id r" by auto
    from Cons.prems(5) have dist: "distinct (map rule_id rules)" by simp
    have up1: "ae_redis_up st1" "ae_db_up st1" using f1 Cons.prems(1,2) by simp_all
    show ?thesis
    proof (cases "m \<and> res \<noteq> None")
      case skip: False
      have free2: "\<not> is_throttled now st2 c (rule_id r)"
        using free1 f2 create_alert_other_key [OF cr, of "(c, rule_id r)"] other
          is_throttled_cong [of st2 st1 c "rule_id r" now] by simp
      have up2: "ae_redis_up st2" "ae_db_up st2" using f2 up1 by simp_all
      show ?thesis
      proof (cases m)
        case True
        with skip have "res = None" by simp
        with ev True cr have "evaluate_rules matches now c ch (rule # rules) st
            = evaluate_rules matches now c ch rules st2" by simp
        with Cons.IH [OF up2 free2 r_in dist Cons.prems(6,7)] show ?thesis by simp
      next
        case False
        with ev have "evaluate_rules matches now c ch (rule # rules) st
            = evaluate_rules matches now c ch rules st1" by simp
        with Cons.IH [OF up1 free1 r_in dist Cons.prems(6,7)] show ?thesis by simp
      qed
    next
      case True
      then obtain a where a: "res = Some a" and m: m by auto
      obtain rest st3 where rec: "evaluate_rules matches now c ch rules (trigger_alert a st2) = (rest, st3)"
        by (cases "evaluate_rules matches now c ch rules (trigger_alert a st2)")
      with ev m cr a have out: "fst (evaluate_rules matches now c ch (rule # rules) st) = (rule_id rule, a) # rest"
        by simp
      have free3: "\<not> is_throttled now (trigger_alert a st2) c (rule_id r)"
        using free1 f2 create_alert_other_key [OF cr, of "(c, rule_id r)"] other
          is_throttled_cong [of "trigger_alert a st2" st1 c "rule_id r" now]
        by (simp add: trigger_alert_frame)
      have up3: "ae_redis_up (trigger_alert a st2)" "ae_db_up (trigger_alert a st2)"
        using f2 up1 by (simp_all add: trigger_alert_frame)
      from Cons.IH [OF up3 free3 r_in dist Cons.prems(6,7)] rec
      have "length (alerts_for c (rule_id r) rest) = 1" by simp
      then show ?thesis
        unfolding out using other by (simp add: alerts_for_Cons)
    qed
  qed
qed

section \<open>Properties of the dead-letter path\<close>



lemma dead_letters_append:
  "kc_log st' = kc_log st @ xs \<Longrightarrow>
     dead_letters st' = dead_letters st @ map (\<lambda>(topic, key, v). v) (filter (\<lambda>(topic, key, v). topic = dlq_topic) xs)"
  by (simp add: dead_letters_def)




section \<open>Security header changes come from the old snapshot\<close>

text \<open>
  C10. Every \<open>security_header_changed\<close> change in the list that \<open>detect_changes\<close>
  returns names a header that is a key of the old snapshot's \<open>security_headers\<close>; a
  header that is a key of the new snapshot only is therefore never reported.
\<close>

theorem security_header_changes_refer_to_old_headers:
  "\<forall>c \<in> set (changes (fst (detect_changes ratio clk st old_scan new_scan config_id))).
     change_type c = Some security_header_changed \<longrightarrow>
     (\<exists>h. evidence_header c = Some h \<and> h \<in> fst ` set (security_headers (scan_security old_scan)))"
proof (intro ballI impI)
  fix c
  assume mem: "c \<in> set (changes (fst (detect_changes ratio clk st old_scan new_scan config_id)))"
    and kind: "change_type c = Some security_header_changed"
  let ?tech = "detect_technology_changes (scan_technologies old_scan) (scan_technologies new_scan)"
  let ?perf = "detect_performance_changes (fst (get_performance_thresholds (t_start clk) config_id st))
                 (scan_performance old_scan) (scan_performance new_scan)"
  let ?sec = "detect_security_changes (scan_security old_scan) (scan_security new_scan)"
  let ?cont = "detect_content_changes ratio (scan_content old_scan) (scan_content new_scan)"
  let ?infra = "detect_infrastructure_changes (scan_infrastructure old_scan) (scan_infrastructure new_scan)"
  from mem have "c \<in> set (?tech @ ?perf @ ?sec @ ?cont @ ?infra)"
    unfolding changes_detect_changes by (rule filter_noise_kept [THEN conjunct1])
  then have cases: "c \<in> set ?tech \<or> c \<in> set ?perf \<or> c \<in> set ?sec \<or> c \<in> set ?cont \<or> c \<in> set ?infra"
    by simp
  have "c \<notin> set ?tech"
    using technology_changes_kinds [of c] kind by auto
  moreover have "c \<notin> set ?perf"
    using performance_changes_kinds [of c] kind by auto
  moreover have "c \<notin> set ?cont"
    using content_changes_kinds [of c] kind by auto
  moreover have "c \<notin> set ?infra"
    using infrastructure_changes_kinds [of c] kind by auto
  ultimately have "c \<in> set ?sec"
    using cases by blast
  with kind have "c \<in> set (header_changes (security_headers (scan_security old_scan))
      (security_headers (scan_security new_scan)))"
    by (simp add: security_header_changed_origin)
  then obtain h ov where "(h, ov) \<in> set (security_headers (scan_security old_scan))"
    and "c = header_change h ov (map_of (security_headers (scan_security new_scan)) h)"
    using header_changes_from_old by blast
  then show "\<exists>h. evidence_header c = Some h \<and> h \<in> fst ` set (security_headers (scan_security old_scan))"
    by (force simp: header_change_fields)
qed

theorem security_header_changes_refer_to_old_headers_witness:
  "\<exists>c \<in> set (changes (fst (detect_changes (\<lambda>a b. 1) example_clock example_detector
        (scan_with_headers [(''X-Frame-Options'', ''DENY'')])
        (scan_with_headers [(''X-New-Header'', ''1'')]) ''config-1''))).
     change_type c = Some security_header_changed
     \<and> (\<exists>h. evidence_header c = Some h
          \<and> h \<in> fst ` set (security_headers (scan_security (scan_with_headers [(''X-Frame-Options'', ''DENY'')]))))"
proof -
  let ?cs = "changes (fst (detect_changes (\<lambda>a b. 1) example_clock example_detector
        (scan_with_headers [(''X-Frame-Options'', ''DENY'')])
        (scan_with_headers [(''X-New-Header'', ''1'')]) ''config-1''))"
  have "\<exists>c \<in> set ?cs. change_type c = Some security_header_changed"
    by code_simp
  then obtain c where mem: "c \<in> set ?cs" and kind: "change_type c = Some security_header_changed"
    by blast
  from security_header_changes_refer_to_old_headers [rule_format, OF mem kind] mem kind
  show ?thesis by blast
qed

section \<open>Small performance changes are never reported\<close>

text \<open>
  C4. Whatever the snapshots, the thresholds held by the cache or the store and the rest
  of the detector's state, every performance change in the list that \<open>detect_changes\<close>
  returns carries a \<open>change_percent\<close> of magnitude at least 5.
\<close>

theorem no_small_performance_change_reported:
  "\<forall>c \<in> set (changes (fst (detect_changes ratio clk st old_scan new_scan config_id))).
     ctype c = performance_change \<longrightarrow> (\<exists>p. change_percent c = Some p \<and> 5 \<le> \<bar>p\<bar>)"
proof (intro ballI impI)
  fix c
  assume mem: "c \<in> set (changes (fst (detect_changes ratio clk st old_scan new_scan config_id)))"
    and perf: "ctype c = performance_change"
  from mem have "\<not> is_small_performance_change c"
    unfolding changes_detect_changes by (rule filter_noise_kept [THEN conjunct2, THEN conjunct2, THEN conjunct2])
  with perf have big: "\<not> \<bar>get_or (change_percent c) 0\<bar> < 5"
    by (simp add: is_small_performance_change_def)
  show "\<exists>p. change_percent c = Some p \<and> 5 \<le> \<bar>p\<bar>"
  proof (cases "change_percent c")
    case None
    with big show ?thesis by (simp add: get_or_def)
  next
    case (Some p)
    with big show ?thesis by (simp add: get_or_def)
  qed
qed

theorem no_small_performance_change_reported_witness:
  "(\<exists>c \<in> set (changes (fst (detect_changes (\<lambda>a b. 1) example_clock (detector_with_thresholds [(''load_time'', 1)])
        (scan_with_load_time 1000) (scan_with_load_time 1300) ''config-1''))).
      ctype c = performance_change \<and> (\<exists>p. change_percent c = Some p \<and> 5 \<le> \<bar>p\<bar>))
   \<and> changes (fst (detect_changes (\<lambda>a b. 1) example_clock (detector_with_thresholds [(''load_time'', 1)])
        (scan_with_load_time 1000) (scan_with_load_time 1030) ''config-1'')) = []"
proof -
  let ?cs = "changes (fst (detect_changes (\<lambda>a b. 1) example_clock (detector_with_thresholds [(''load_time'', 1)])
        (scan_with_load_time 1000) (scan_with_load_time 1300) ''config-1''))"
  have "\<exists>c \<in> set ?cs. ctype c = performance_change"
    by code_simp
  then obtain c where mem: "c \<in> set ?cs" and kind: "ctype c = performance_change"
    by blast
  from no_small_performance_change_reported [rule_format, OF mem kind] mem kind
  have first: "\<exists>c \<in> set ?cs. ctype c = performance_change \<and> (\<exists>p. change_percent c = Some p \<and> 5 \<le> \<bar>p\<bar>)"
    by blast
  have second: "changes (fst (detect_changes (\<lambda>a b. 1) example_clock (detector_with_thresholds [(''load_time'', 1)])
        (scan_with_load_time 1000) (scan_with_load_time 1030) ''config-1'')) = []"
    by code_simp
  from first second show ?thesis by (rule conjI)
qed

section \<open>When two runs of the detection agree\<close>

lemma changes_from_raw:
  "changes (fst (detect_changes ratio clk st old_scan new_scan config_id)) =
     fst (filter_noise (raw_changes ratio (fst (get_performance_thresholds (t_start clk) config_id st))
            old_scan new_scan))"
  by (simp add: changes_detect_changes raw_changes_def)

lemma thresholds_from_store_reachable:
  assumes "det_db_up st"
  shows "fst (thresholds_from_store now cid st) = stored_thresholds st cid"
  using assms
  by (simp add: thresholds_from_store_def stored_thresholds_def Let_def split: option.splits)

lemma thresholds_when_cache_agrees:
  assumes "det_redis_up st" and "det_db_up st" and "cache_agrees now cid st"
  shows "fst (get_performance_thresholds now cid st) = stored_thresholds st cid"
proof (cases "map_of (det_threshold_cache st) cid")
  case None
  with assms(1,2) show ?thesis
    by (simp add: get_performance_thresholds_def thresholds_from_store_reachable)
next
  case (Some entry)
  obtain cached expires where entry: "entry = (cached, expires)" by (cases entry)
  show ?thesis
  proof (cases "now < expires")
    case True
    with assms Some entry show ?thesis
      by (simp add: get_performance_thresholds_def cache_agrees_def)
  next
    case False
    with assms(1,2) Some entry show ?thesis
      by (simp add: get_performance_thresholds_def thresholds_from_store_reachable)
  qed
qed

lemma thresholds_from_store_frame:
  "det_redis_up (snd (thresholds_from_store now cid st)) = det_redis_up st"
  "det_db_up (snd (thresholds_from_store now cid st)) = det_db_up st"
  "det_monitoring_configs (snd (thresholds_from_store now cid st)) = det_monitoring_configs st"
  by (simp_all add: thresholds_from_store_def Let_def split: option.splits)

lemma get_performance_thresholds_frame:
  "det_redis_up (snd (get_performance_thresholds now cid st)) = det_redis_up st"
  "det_db_up (snd (get_performance_thresholds now cid st)) = det_db_up st"
  "det_monitoring_configs (snd (get_performance_thresholds now cid st)) = det_monitoring_configs st"
  by (simp_all add: get_performance_thresholds_def thresholds_from_store_frame split: option.splits)

lemma stored_thresholds_cong:
  "det_monitoring_configs st' = det_monitoring_configs st \<Longrightarrow>
     stored_thresholds st' cid = stored_thresholds st cid"
  by (simp add: stored_thresholds_def)

lemma thresholds_from_store_agrees:
  assumes "det_db_up st" and "now \<le> later"
    and "\<forall>cached expires. map_of (det_threshold_cache st) cid = Some (cached, expires) \<longrightarrow> expires \<le> now"
  shows "cache_agrees later cid (snd (thresholds_from_store now cid st))"
proof -
  have unchanged: "cache_agrees later cid st"
    using assms(2,3) by (auto simp: cache_agrees_def split: option.splits)
  show ?thesis
  proof (cases "\<exists>sc. map_of (det_monitoring_configs st) cid = Some (Some sc) \<and> scan_config_nonempty sc")
    case True
    then obtain sc where sc: "map_of (det_monitoring_configs st) cid = Some (Some sc)"
      "scan_config_nonempty sc" by blast
    with assms(1) have "snd (thresholds_from_store now cid st) =
        st\<lparr>det_threshold_cache := AList.update cid (get_or (performance_thresholds sc) [], now + 3600)
              (det_threshold_cache st)\<rparr>"
      by (simp add: thresholds_from_store_def Let_def)
    with sc show ?thesis
      by (simp add: cache_agrees_def stored_thresholds_def update_conv')
  next
    case False
    then have "snd (thresholds_from_store now cid st) = st"
      by (auto simp: thresholds_from_store_def Let_def split: option.splits)
    with unchanged show ?thesis by simp
  qed
qed

lemma get_performance_thresholds_agrees:
  assumes "det_redis_up st" and "det_db_up st" and "cache_agrees now cid st" and "now \<le> later"
  shows "cache_agrees later cid (snd (get_performance_thresholds now cid st))"
proof (cases "map_of (det_threshold_cache st) cid")
  case None
  then have "\<forall>cached expires. map_of (det_threshold_cache st) cid = Some (cached, expires) \<longrightarrow> expires \<le> now"
    by simp
  from thresholds_from_store_agrees [OF assms(2,4) this] None assms(1) show ?thesis
    by (simp add: get_performance_thresholds_def)
next
  case (Some entry)
  obtain cached expires where entry: "entry = (cached, expires)" by (cases entry)
  show ?thesis
  proof (cases "now < expires")
    case True
    with assms(3) Some entry have "cached = stored_thresholds st cid"
      by (simp add: cache_agrees_def)
    with Some entry have "cache_agrees later cid st"
      by (simp add: cache_agrees_def)
    with True assms(1) Some entry show ?thesis
      by (simp add: get_performance_thresholds_def)
  next
    case False
    with Some entry
    have "\<forall>c e. map_of (det_threshold_cache st) cid = Some (c, e) \<longrightarrow> e \<le> now"
      by simp
    from thresholds_from_store_agrees [OF assms(2,4) this] False assms(1) Some entry show ?thesis
      by (simp add: get_performance_thresholds_def)
  qed
qed

lemma detect_changes_state:
  "det_redis_up (snd (detect_changes ratio clk st old_scan new_scan cid)) = det_redis_up st"
  "det_db_up (snd (detect_changes ratio clk st old_scan new_scan cid)) = det_db_up st"
  "det_monitoring_configs (snd (detect_changes ratio clk st old_scan new_scan cid)) = det_monitoring_configs st"
  "det_threshold_cache (snd (detect_changes ratio clk st old_scan new_scan cid)) =
     det_threshold_cache (snd (get_performance_thresholds (t_start clk) cid st))"
proof -
  obtain ths st1 where run: "get_performance_thresholds (t_start clk) cid st = (ths, st1)"
    by (cases "get_performance_thresholds (t_start clk) cid st")
  with get_performance_thresholds_frame [of "t_start clk" cid st]
  have frame: "det_redis_up st1 = det_redis_up st" "det_db_up st1 = det_db_up st"
    "det_monitoring_configs st1 = det_monitoring_configs st" by simp_all
  have after: "snd (detect_changes ratio clk st old_scan new_scan cid) =
      st1\<lparr>det_metrics := det_metrics (snd (detect_changes ratio clk st old_scan new_scan cid))\<rparr>"
    using run by (simp add: detect_changes_def Let_def split: prod.splits)
  show "det_redis_up (snd (detect_changes ratio clk st old_scan new_scan cid)) = det_redis_up st"
    by (subst after) (simp add: frame)
  show "det_db_up (snd (detect_changes ratio clk st old_scan new_scan cid)) = det_db_up st"
    by (subst after) (simp add: frame)
  show "det_monitoring_configs (snd (detect_changes ratio clk st old_scan new_scan cid)) = det_monitoring_configs st"
    by (subst after) (simp add: frame)
  show "det_threshold_cache (snd (detect_changes ratio clk st old_scan new_scan cid)) =
     det_threshold_cache (snd (get_performance_thresholds (t_start clk) cid st))"
    by (subst after) (simp add: run)
qed

lemma cache_agrees_cong:
  "det_threshold_cache st' = det_threshold_cache st \<Longrightarrow>
   det_monitoring_configs st' = det_monitoring_configs st \<Longrightarrow>
     cache_agrees now cid st' = cache_agrees now cid st"
  using stored_thresholds_cong [of st' st cid]
  by (simp add: cache_agrees_def split: option.splits)

lemma filter_noise_mset:
  "mset cs = mset cs' \<Longrightarrow> mset (fst (filter_noise cs)) = mset (fst (filter_noise cs'))"
  by (simp add: filter_noise_fst mset_filter)

lemma confidence_sum:
  "foldl (\<lambda>total c. total + discounted_confidence c) a cs = a + sum_list (map discounted_confidence cs)"
  by (induction cs arbitrary: a) (simp_all add: add.assoc)

lemma calculate_confidence_mset:
  assumes "mset cs = mset cs'"
  shows "calculate_confidence cs = calculate_confidence cs'"
proof -
  from assms have "sum_list (map discounted_confidence cs) = sum_list (map discounted_confidence cs')"
    by (metis mset_map sum_mset_sum_list)
  moreover from assms have "length cs = length cs'" by (rule mset_eq_length)
  moreover from assms have "(cs = []) = (cs' = [])" by (metis mset_zero_iff)
  ultimately show ?thesis
    by (simp add: calculate_confidence_def confidence_sum)
qed

lemma stored_thresholds_same_entry:
  "map_of (det_monitoring_configs st') cid = map_of (det_monitoring_configs st) cid \<Longrightarrow>
     stored_thresholds st' cid = stored_thresholds st cid"
  by (simp add: stored_thresholds_def)

lemma cache_agrees_after_run:
  assumes "det_redis_up st" and "det_db_up st" and "cache_agrees (t_start clk) cid st"
    and "t_start clk \<le> later"
  shows "cache_agrees later cid (snd (detect_changes ratio clk st old_scan new_scan cid))"
proof -
  have "cache_agrees later cid (snd (detect_changes ratio clk st old_scan new_scan cid)) =
        cache_agrees later cid (snd (get_performance_thresholds (t_start clk) cid st))"
    by (rule cache_agrees_cong)
       (simp_all add: detect_changes_state get_performance_thresholds_frame)
  with get_performance_thresholds_agrees [OF assms] show ?thesis by simp
qed

lemma run_from_stored_thresholds:
  assumes "det_redis_up st" and "det_db_up st" and "cache_agrees (t_start clk) cid st"
  shows "changes (fst (detect_changes ratio clk st old_scan new_scan cid)) =
           fst (filter_noise (raw_changes ratio (stored_thresholds st cid) old_scan new_scan))"
    and "detection_confidence (fst (detect_changes ratio clk st old_scan new_scan cid)) =
           calculate_confidence
             (fst (filter_noise (raw_changes ratio (stored_thresholds st cid) old_scan new_scan)))"
proof -
  show first: "changes (fst (detect_changes ratio clk st old_scan new_scan cid)) =
           fst (filter_noise (raw_changes ratio (stored_thresholds st cid) old_scan new_scan))"
    by (simp add: changes_from_raw thresholds_when_cache_agrees [OF assms])
  show "detection_confidence (fst (detect_changes ratio clk st old_scan new_scan cid)) =
           calculate_confidence
             (fst (filter_noise (raw_changes ratio (stored_thresholds st cid) old_scan new_scan)))"
    by (simp add: confidence_detect_changes first)
qed

text \<open>
  C6 (amended). \<open>detect_changes\<close> reads the performance thresholds of the configuration
  through a cache with a time to live of one hour, and takes the empty dictionary when
  the cache or the store cannot be reached. Two runs on the same pair of snapshots
  return the same changes and the same confidence when, in both runs, cache and store
  are reachable, the store holds the same entry for the configuration, and an entry of
  the cache that has not expired holds the stored thresholds. The two runs may start in
  different states of the detector (counters, tables, other cache entries) and at
  different times. The condition holds of a detector with an empty cache and each run
  keeps it, so a run started in the state that an earlier run left returns the same
  changes and the same confidence again. The order in which the detectors emit their
  changes has no influence: from any arrangement \<open>cs\<close> of the changes built before the
  filter, the filter keeps the same changes, each as many times, and the confidence is
  the same. Confidences are rational numbers here; the rounding of floating-point
  addition is not part of the model.
\<close>

theorem repeated_detection_agrees:
  assumes "det_redis_up st1" and "det_db_up st1"
    and "det_redis_up st2" and "det_db_up st2"
    and "map_of (det_monitoring_configs st2) cid = map_of (det_monitoring_configs st1) cid"
    and "cache_agrees (t_start clk1) cid st1"
    and "cache_agrees (t_start clk2) cid st2"
    and "t_start clk1 \<le> t_start clk3"
    and "mset cs = mset (raw_changes ratio (stored_thresholds st1 cid) old_scan new_scan)"
  shows "changes (fst (detect_changes ratio clk2 st2 old_scan new_scan cid)) =
           changes (fst (detect_changes ratio clk1 st1 old_scan new_scan cid))
       \<and> detection_confidence (fst (detect_changes ratio clk2 st2 old_scan new_scan cid)) =
           detection_confidence (fst (detect_changes ratio clk1 st1 old_scan new_scan cid))
       \<and> cache_agrees (t_start clk3) cid (snd (detect_changes ratio clk1 st1 old_scan new_scan cid))
       \<and> changes (fst (detect_changes ratio clk3
                         (snd (detect_changes ratio clk1 st1 old_scan new_scan cid))
                         old_scan new_scan cid)) =
           changes (fst (detect_changes ratio clk1 st1 old_scan new_scan cid))
       \<and> detection_confidence (fst (detect_changes ratio clk3
                         (snd (detect_changes ratio clk1 st1 old_scan new_scan cid))
                         old_scan new_scan cid)) =
           detection_confidence (fst (detect_changes ratio clk1 st1 old_scan new_scan cid))
       \<and> mset (fst (filter_noise cs)) =
           mset (changes (fst (detect_changes ratio clk1 st1 old_scan new_scan cid)))
       \<and> calculate_confidence (fst (filter_noise cs)) =
           detection_confidence (fst (detect_changes ratio clk1 st1 old_scan new_scan cid))"
proof -
  let ?st3 = "snd (detect_changes ratio clk1 st1 old_scan new_scan cid)"
  let ?kept = "fst (filter_noise (raw_changes ratio (stored_thresholds st1 cid) old_scan new_scan))"
  note first = run_from_stored_thresholds [OF assms(1,2,6), of ratio old_scan new_scan]
  have stored2: "stored_thresholds st2 cid = stored_thresholds st1 cid"
    using assms(5) by (rule stored_thresholds_same_entry)
  note second = run_from_stored_thresholds [OF assms(3,4,7), of ratio old_scan new_scan]
  have up3: "det_redis_up ?st3" "det_db_up ?st3"
    using assms(1,2) by (simp_all add: detect_changes_state)
  have agrees3: "cache_agrees (t_start clk3) cid ?st3"
    using assms(1,2,6,8) by (rule cache_agrees_after_run)
  have stored3: "stored_thresholds ?st3 cid = stored_thresholds st1 cid"
    by (rule stored_thresholds_cong) (simp add: detect_changes_state)
  note third = run_from_stored_thresholds [OF up3 agrees3, of ratio old_scan new_scan]
  have kept: "mset (fst (filter_noise cs)) = mset ?kept"
    using assms(9) by (rule filter_noise_mset)
  then have conf: "calculate_confidence (fst (filter_noise cs)) = calculate_confidence ?kept"
    by (rule calculate_confidence_mset)
  show ?thesis
    using first second third agrees3 kept conf by (simp only: stored2 stored3 simp_thms)
qed

text \<open>
  The condition on the cache is needed. Take the snapshots with a load time of 1000
  and then 1100 milliseconds (a change of 10 percent) and one stored configuration, with
  a threshold of 1 percent for the load time. A detector that reaches cache and store
  reports the change; a detector with the same stored configuration that cannot reach
  the cache reports nothing; and a detector whose cache still holds a threshold of 50
  percent until time 3600 reports nothing at time 0 and, started again in the state it
  left, reports the change at time 5000.
\<close>

theorem cached_thresholds_counterexample:
  "det_monitoring_configs offline_detector = det_monitoring_configs (detector_with_thresholds [(''load_time'', 1)])
   \<and> det_monitoring_configs stale_detector = det_monitoring_configs (detector_with_thresholds [(''load_time'', 1)])
   \<and> length (changes (fst (detect_changes (\<lambda>a b. 1) example_clock
        (detector_with_thresholds [(''load_time'', 1)])
        (scan_with_load_time 1000) (scan_with_load_time 1100) ''config-1''))) = 1
   \<and> changes (fst (detect_changes (\<lambda>a b. 1) example_clock offline_detector
        (scan_with_load_time 1000) (scan_with_load_time 1100) ''config-1'')) = []
   \<and> changes (fst (detect_changes (\<lambda>a b. 1) example_clock stale_detector
        (scan_with_load_time 1000) (scan_with_load_time 1100) ''config-1'')) = []
   \<and> length (changes (fst (detect_changes (\<lambda>a b. 1) later_clock
        (snd (detect_changes (\<lambda>a b. 1) example_clock stale_detector
               (scan_with_load_time 1000) (scan_with_load_time 1100) ''config-1''))
        (scan_with_load_time 1000) (scan_with_load_time 1100) ''config-1''))) = 1
   \<and> detection_confidence (fst (detect_changes (\<lambda>a b. 1) example_clock stale_detector
        (scan_with_load_time 1000) (scan_with_load_time 1100) ''config-1'')) \<noteq>
     detection_confidence (fst (detect_changes (\<lambda>a b. 1) later_clock
        (snd (detect_changes (\<lambda>a b. 1) example_clock stale_detector
               (scan_with_load_time 1000) (scan_with_load_time 1100) ''config-1''))
        (scan_with_load_time 1000) (scan_with_load_time 1100) ''config-1''))"
  by code_simp

theorem repeated_detection_agrees_witness:
  "changes (fst (detect_changes (\<lambda>a b. 1) later_clock busy_detector
       busy_old_scan busy_new_scan ''config-1'')) =
     changes (fst (detect_changes (\<lambda>a b. 1) example_clock (detector_with_thresholds [(''load_time'', 1)])
       busy_old_scan busy_new_scan ''config-1''))
   \<and> detection_confidence (fst (detect_changes (\<lambda>a b. 1) later_clock busy_detector
       busy_old_scan busy_new_scan ''config-1'')) =
     detection_confidence (fst (detect_changes (\<lambda>a b. 1) example_clock
       (detector_with_thresholds [(''load_time'', 1)]) busy_old_scan busy_new_scan ''config-1''))
   \<and> changes (fst (detect_changes (\<lambda>a b. 1) last_clock
       (snd (detect_changes (\<lambda>a b. 1) example_clock (detector_with_thresholds [(''load_time'', 1)])
              busy_old_scan busy_new_scan ''config-1''))
       busy_old_scan busy_new_scan ''config-1'')) =
     changes (fst (detect_changes (\<lambda>a b. 1) example_clock (detector_with_thresholds [(''load_time'', 1)])
       busy_old_scan busy_new_scan ''config-1''))
   \<and> calculate_confidence (fst (filter_noise (rev (raw_changes (\<lambda>a b. 1)
          (stored_thresholds (detector_with_thresholds [(''load_time'', 1)]) ''config-1'')
          busy_old_scan busy_new_scan)))) =
     detection_confidence (fst (detect_changes (\<lambda>a b. 1) example_clock
       (detector_with_thresholds [(''load_time'', 1)]) busy_old_scan busy_new_scan ''config-1''))
   \<and> length (changes (fst (detect_changes (\<lambda>a b. 1) example_clock
       (detector_with_thresholds [(''load_time'', 1)]) busy_old_scan busy_new_scan ''config-1''))) = 6"
proof -
  have up1: "det_redis_up (detector_with_thresholds [(''load_time'', 1)])"
    "det_db_up (detector_with_thresholds [(''load_time'', 1)])" by code_simp+
  have up2: "det_redis_up busy_detector" "det_db_up busy_detector" by code_simp+
  have store: "map_of (det_monitoring_configs busy_detector) ''config-1'' =
      map_of (det_monitoring_configs (detector_with_thresholds [(''load_time'', 1)])) ''config-1''"
    by code_simp
  have cache1: "cache_agrees (t_start example_clock) ''config-1''
      (detector_with_thresholds [(''load_time'', 1)])" by code_simp
  have cache2: "cache_agrees (t_start later_clock) ''config-1'' busy_detector" by code_simp
  have later: "t_start example_clock \<le> t_start last_clock" by code_simp
  have arrangement: "mset (rev (raw_changes (\<lambda>a b. 1)
        (stored_thresholds (detector_with_thresholds [(''load_time'', 1)]) ''config-1'')
        busy_old_scan busy_new_scan)) =
      mset (raw_changes (\<lambda>a b. 1)
        (stored_thresholds (detector_with_thresholds [(''load_time'', 1)]) ''config-1'')
        busy_old_scan busy_new_scan)"
    by simp
  have count: "length (changes (fst (detect_changes (\<lambda>a b. 1) example_clock
       (detector_with_thresholds [(''load_time'', 1)]) busy_old_scan busy_new_scan ''config-1''))) = 6"
    by code_simp
  from repeated_detection_agrees [OF up1 up2 store cache1 cache2 later arrangement] count
  show ?thesis by simp
qed
section \<open>Which version changes are reported\<close>

text \<open>
  C2 (amended). Let a technology named \<open>n\<close> be present in both snapshots, with non-empty,
  differing version strings whose dot-separated components all parse as integers, the
  first components being \<open>a\<close> (old) and \<open>b\<close> (new).
  \<^item> If the major components differ and the lower-cased name contains none of the noisy
    names, exactly one \<open>version_changed\<close> change is reported for \<open>n\<close>, and its impact is one
    level above the base importance of \<open>n\<close>, a base of \<open>critical\<close> staying \<open>critical\<close>.
  \<^item> If the major and the minor components are both equal (a patch-only difference), no
    \<open>version_changed\<close> change is reported for \<open>n\<close>, whatever the technology.
  \<^item> If the lower-cased name contains a noisy name, no \<open>version_changed\<close> change is
    reported for \<open>n\<close>.
  Nothing is stated about versions that differ in the minor component only.
\<close>

theorem version_change_reporting:
  assumes "first_named n (detected (scan_technologies old_scan)) = Some ot"
    and "first_named n (detected (scan_technologies new_scan)) = Some nt"
    and "tech_version ot = Some ov" and "tech_version nt = Some nv"
    and "ov \<noteq> []" and "nv \<noteq> []" and "ov \<noteq> nv"
    and "parse_version ov = Some (a # as)" and "parse_version nv = Some (b # bs)"
  shows "(a \<noteq> b \<and> \<not> name_is_noisy n \<longrightarrow>
            reported_version_changes
              (changes (fst (detect_changes ratio clk st old_scan new_scan config_id))) n
              = [version_change n ot nt ov nv]
            \<and> (assess_tech_impact n = ''low'' \<longrightarrow>
                 impact_assessment (version_change n ot nt ov nv) = Some ''medium'')
            \<and> (assess_tech_impact n = ''medium'' \<longrightarrow>
                 impact_assessment (version_change n ot nt ov nv) = Some ''high'')
            \<and> (assess_tech_impact n = ''high'' \<longrightarrow>
                 impact_assessment (version_change n ot nt ov nv) = Some ''critical'')
            \<and> (assess_tech_impact n = ''critical'' \<longrightarrow>
                 impact_assessment (version_change n ot nt ov nv) = Some ''critical''))
       \<and> (a = b \<and> as \<noteq> [] \<and> bs \<noteq> [] \<and> hd as = hd bs \<longrightarrow>
            reported_version_changes
              (changes (fst (detect_changes ratio clk st old_scan new_scan config_id))) n = [])
       \<and> (name_is_noisy n \<longrightarrow>
            reported_version_changes
              (changes (fst (detect_changes ratio clk st old_scan new_scan config_id))) n = [])"
proof -
  let ?reported = "reported_version_changes
      (changes (fst (detect_changes ratio clk st old_scan new_scan config_id))) n"
  let ?vc = "version_change n ot nt ov nv"
  have "n \<in> set (map tech_name (detected (scan_technologies old_scan)))"
    using first_named_Some_name [OF assms(1)] by force
  moreover have "n \<in> set (map tech_name (detected (scan_technologies new_scan)))"
    using first_named_Some_name [OF assms(2)] by force
  ultimately have present: "n \<in> set (map tech_name (detected (scan_technologies old_scan)))
      \<and> n \<in> set (map tech_name (detected (scan_technologies new_scan)))" ..
  have loop: "version_changes_for (detected (scan_technologies old_scan))
      (detected (scan_technologies new_scan)) n = Some (if a \<noteq> b then [?vc] else [])"
    using assms by (simp add: version_changes_for_def Let_def get_or_def significant_parsed)
  have reported: "?reported = fst (filter_noise (if a \<noteq> b then [?vc] else []))"
    unfolding reported_version_changes_detect_changes using present loop by simp
  have major: "?reported = [?vc]" if "a \<noteq> b" "\<not> name_is_noisy n"
  proof -
    from that(1) have "\<not> is_minor_version_change ov nv"
      using assms(8,9) by (simp add: minor_change_parsed)
    with that show ?thesis
      unfolding reported by (simp add: version_change_kept del: filter_noise.simps)
  qed
  have impact: "(assess_tech_impact n = ''low'' \<longrightarrow> impact_assessment ?vc = Some ''medium'')
      \<and> (assess_tech_impact n = ''medium'' \<longrightarrow> impact_assessment ?vc = Some ''high'')
      \<and> (assess_tech_impact n = ''high'' \<longrightarrow> impact_assessment ?vc = Some ''critical'')
      \<and> (assess_tech_impact n = ''critical'' \<longrightarrow> impact_assessment ?vc = Some ''critical'')"
    if "a \<noteq> b"
  proof -
    from that have "is_major_version_change ov nv"
      using assms(8,9) by (simp add: major_change_parsed)
    from escalated_impact [OF this, of n] show ?thesis
      by (simp add: version_change_fields)
  qed
  have same: "?reported = []" if "a = b"
    unfolding reported using that by simp
  have noisy: "?reported = []" if "name_is_noisy n"
    unfolding reported using that
    by (simp add: version_change_kept filter_noise_nothing del: filter_noise.simps)
  show ?thesis
    using major impact same noisy by blast
qed

text \<open>
  The claim as first stated fails on three inputs. \<open>google-analytics 3.0.0 \<rightarrow> 4.0.0\<close>
  changes the major version and nothing is reported (the name is noisy).
  \<open>nginx 1.18.0 \<rightarrow> 2.0.0\<close> is reported with impact \<open>critical\<close>, which is the base
  importance of nginx and not one level above it. \<open>react 17.0.0 \<rightarrow> 17.1.0\<close> changes
  the minor version of a technology of importance \<open>high\<close> and nothing is reported.
\<close>

theorem version_change_claim_counterexample:
  "major_of ''3.0.0'' = Some 3 \<and> major_of ''4.0.0'' = Some 4
   \<and> changes (fst (detect_changes (\<lambda>a b. 1) example_clock example_detector
        (scan_with_techs [example_tech ''google-analytics'' ''3.0.0''])
        (scan_with_techs [example_tech ''google-analytics'' ''4.0.0'']) ''config-1'')) = []
   \<and> assess_tech_impact ''nginx'' = ''critical''
   \<and> map impact_assessment (changes (fst (detect_changes (\<lambda>a b. 1) example_clock example_detector
        (scan_with_techs [example_tech ''nginx'' ''1.18.0''])
        (scan_with_techs [example_tech ''nginx'' ''2.0.0'']) ''config-1''))) = [Some ''critical'']
   \<and> assess_tech_impact ''react'' = ''high''
   \<and> parse_version ''17.0.0'' = Some [17, 0, 0] \<and> parse_version ''17.1.0'' = Some [17, 1, 0]
   \<and> changes (fst (detect_changes (\<lambda>a b. 1) example_clock example_detector
        (scan_with_techs [example_tech ''react'' ''17.0.0''])
        (scan_with_techs [example_tech ''react'' ''17.1.0'']) ''config-1'')) = []"
proof -
  have noisy: "major_of ''3.0.0'' = Some 3 \<and> major_of ''4.0.0'' = Some 4
      \<and> changes (fst (detect_changes (\<lambda>a b. 1) example_clock example_detector
        (scan_with_techs [example_tech ''google-analytics'' ''3.0.0''])
        (scan_with_techs [example_tech ''google-analytics'' ''4.0.0'']) ''config-1'')) = []"
    by code_simp
  have capped: "assess_tech_impact ''nginx'' = ''critical''
      \<and> map impact_assessment (changes (fst (detect_changes (\<lambda>a b. 1) example_clock example_detector
        (scan_with_techs [example_tech ''nginx'' ''1.18.0''])
        (scan_with_techs [example_tech ''nginx'' ''2.0.0'']) ''config-1''))) = [Some ''critical'']"
    by code_simp
  have minor: "assess_tech_impact ''react'' = ''high''
      \<and> parse_version ''17.0.0'' = Some [17, 0, 0] \<and> parse_version ''17.1.0'' = Some [17, 1, 0]
      \<and> changes (fst (detect_changes (\<lambda>a b. 1) example_clock example_detector
        (scan_with_techs [example_tech ''react'' ''17.0.0''])
        (scan_with_techs [example_tech ''react'' ''17.1.0'']) ''config-1'')) = []"
    by code_simp
  from noisy capped minor show ?thesis by simp
qed

text \<open>
  The amended statement at the examples of the specification: \<open>react 17.0.2 \<rightarrow> 18.2.0\<close>
  is reported once with impact \<open>critical\<close> (base \<open>high\<close>), and for
  \<open>jquery 3.6.0 \<rightarrow> 3.6.1\<close> nothing is reported.
\<close>

theorem version_change_reporting_witness:
  "reported_version_changes
     (changes (fst (detect_changes (\<lambda>a b. 1) example_clock example_detector
        (scan_with_techs [example_tech ''react'' ''17.0.2''])
        (scan_with_techs [example_tech ''react'' ''18.2.0'']) ''config-1''))) ''react''
     = [version_change ''react'' (example_tech ''react'' ''17.0.2'') (example_tech ''react'' ''18.2.0'')
          ''17.0.2'' ''18.2.0'']
   \<and> impact_assessment (version_change ''react'' (example_tech ''react'' ''17.0.2'')
          (example_tech ''react'' ''18.2.0'') ''17.0.2'' ''18.2.0'') = Some ''critical''
   \<and> reported_version_changes
     (changes (fst (detect_changes (\<lambda>a b. 1) example_clock example_detector
        (scan_with_techs [example_tech ''jquery'' ''3.6.0''])
        (scan_with_techs [example_tech ''jquery'' ''3.6.1'']) ''config-1''))) ''jquery'' = []"
proof -
  have r1: "first_named ''react'' (detected (scan_technologies (scan_with_techs [example_tech ''react'' ''17.0.2''])))
      = Some (example_tech ''react'' ''17.0.2'')" by code_simp
  have r2: "first_named ''react'' (detected (scan_technologies (scan_with_techs [example_tech ''react'' ''18.2.0''])))
      = Some (example_tech ''react'' ''18.2.0'')" by code_simp
  have r3: "tech_version (example_tech ''react'' ''17.0.2'') = Some ''17.0.2''" by code_simp
  have r4: "tech_version (example_tech ''react'' ''18.2.0'') = Some ''18.2.0''" by code_simp
  have r5: "''17.0.2'' \<noteq> []" "''18.2.0'' \<noteq> []" "''17.0.2'' \<noteq> ''18.2.0''" by simp_all
  have r8: "parse_version ''17.0.2'' = Some (17 # [0, 2])" by code_simp
  have r9: "parse_version ''18.2.0'' = Some (18 # [2, 0])" by code_simp
  have quiet: "\<not> name_is_noisy ''react''" by code_simp
  have base: "assess_tech_impact ''react'' = ''high''" by code_simp
  note react = version_change_reporting [OF r1 r2 r3 r4 r5 r8 r9,
      of "\<lambda>a b. 1" example_clock example_detector "''config-1''"]
  have j1: "first_named ''jquery'' (detected (scan_technologies (scan_with_techs [example_tech ''jquery'' ''3.6.0''])))
      = Some (example_tech ''jquery'' ''3.6.0'')" by code_simp
  have j2: "first_named ''jquery'' (detected (scan_technologies (scan_with_techs [example_tech ''jquery'' ''3.6.1''])))
      = Some (example_tech ''jquery'' ''3.6.1'')" by code_simp
  have j3: "tech_version (example_tech ''jquery'' ''3.6.0'') = Some ''3.6.0''" by code_simp
  have j4: "tech_version (example_tech ''jquery'' ''3.6.1'') = Some ''3.6.1''" by code_simp
  have j5: "''3.6.0'' \<noteq> []" "''3.6.1'' \<noteq> []" "''3.6.0'' \<noteq> ''3.6.1''" by simp_all
  have j8: "parse_version ''3.6.0'' = Some (3 # [6, 0])" by code_simp
  have j9: "parse_version ''3.6.1'' = Some (3 # [6, 1])" by code_simp
  note jquery = version_change_reporting [OF j1 j2 j3 j4 j5 j8 j9,
      of "\<lambda>a b. 1" example_clock example_detector "''config-1''"]
  from react quiet base jquery show ?thesis by simp
qed

section \<open>Which stored scan the scan-completed handler compares against\<close>

text \<open>
  C1. \<open>_get_previous_scan\<close> takes no scan id and returns the first row of the query, the
  most recent completed scan of the configuration. When the row of the scan that has just
  completed is already in \<open>scan_results\<close>, that row is the one returned: with the rows
  \<open>scan-1\<close> (time 100, load time 1000) and \<open>scan-2\<close> (time 200, load time 1300) stored
  and the event of \<open>scan-2\<close> arriving, the handler compares the snapshot of \<open>scan-2\<close> with
  itself and finds no change, although comparing \<open>scan-1\<close> with \<open>scan-2\<close> finds one. With
  the row of \<open>scan-2\<close> alone in the table (a first scan), detection is not skipped.
\<close>

theorem previous_scan_is_the_current_scan:
  "get_previous_scan (example_detector\<lparr>det_scan_results := [previous_row, current_row]\<rparr>) ''config-1''
     = Some current_row
   \<and> (case fst (handle_scan_completed (\<lambda>a b. 1) 0 1 example_clock
                   (example_detector\<lparr>det_scan_results := [previous_row, current_row]\<rparr>) current_event) of
         Compared row res \<Rightarrow> sr_id row = ''scan-2'' \<and> changes res = []
       | _ \<Rightarrow> False)
   \<and> length (changes (fst (detect_changes (\<lambda>a b. 1) example_clock
                   (example_detector\<lparr>det_scan_results := [previous_row, current_row]\<rparr>)
                   (sr_result_summary previous_row) (sr_result_summary current_row) ''config-1''))) = 1
   \<and> (case fst (handle_scan_completed (\<lambda>a b. 1) 0 1 example_clock
                   (example_detector\<lparr>det_scan_results := [current_row]\<rparr>) current_event) of
         Compared row res \<Rightarrow> sr_id row = ''scan-2''
       | _ \<Rightarrow> False)"
  by code_simp

section \<open>Throttling of alerts\<close>

text \<open>
  C3. Let the cache and the store be reachable, and let \<open>_create_alert\<close> create an alert
  for a configuration and a rule at time \<open>t0\<close>. Then
  \<^item> the throttle key of the pair is set and expires \<open>throttle_minutes\<close> minutes after
    \<open>t0\<close> (for a positive \<open>throttle_minutes\<close>; it is 60 when the stored rule names none);
  \<^item> whatever change messages are handled before that time, however many and whether or
    not they match the rule, no alert is triggered for the pair;
  \<^item> after them, a message for the configuration that is handled at or after that time
    and matches the rule triggers exactly one alert for the pair (the rule ids of a
    configuration being distinct).
\<close>

theorem throttle_window:
  assumes "ae_redis_up st" and "ae_db_up st"
    and "create_alert t0 config_id rule ch st = (Some a, st1)"
    and "\<forall>(t, d) \<in> set msgs. t0 \<le> t \<and> t < t0 + throttle_minutes rule * 60"
  shows "(0 < throttle_minutes rule \<longrightarrow>
            map_of (ae_throttle st1) (config_id, rule_id rule) = Some (t0 + throttle_minutes rule * 60))
       \<and> alerts_for config_id (rule_id rule) (fst (consume_changes matches msgs st1)) = []
       \<and> (t0 \<le> t \<and> t0 + throttle_minutes rule * 60 \<le> t
            \<and> cd_config_id d = Some config_id \<and> config_id \<noteq> [] \<and> truthy (cd_change_type d)
            \<and> map_of (ae_rules st) config_id = Some rules \<and> rule \<in> set rules
            \<and> distinct (map rule_id rules)
            \<and> rule_enabled rule \<and> matches rule (cd_change_details d) \<longrightarrow>
          length (alerts_for config_id (rule_id rule)
            (fst (handle_change_detected matches t d (snd (consume_changes matches msgs st1))))) = 1)"
proof -
  let ?rid = "rule_id rule"
  let ?e = "t0 + throttle_minutes rule * 60"
  obtain out st2 where run: "consume_changes matches msgs st1 = (out, st2)"
    by (cases "consume_changes matches msgs st1")
  note f1 = create_alert_frame [OF assms(3)]
  have up1: "ae_redis_up st1" "ae_db_up st1" using f1 assms(1,2) by simp_all
  have free0: "\<not> is_throttled t0 st config_id ?rid"
    using assms(3) create_alert_throttled [of t0 st config_id rule ch] by auto
  have mark: "map_of (ae_throttle st1) (config_id, ?rid) = Some ?e" if "0 < throttle_minutes rule"
    using create_alert_sets_mark [OF assms(3,1) that] .
  have window: "ae_redis_up st2 \<and> ae_db_up st2 \<and> ae_rules st2 = ae_rules st
      \<and> alerts_for config_id ?rid out = []
      \<and> (\<forall>t. t0 \<le> t \<and> ?e \<le> t \<longrightarrow> \<not> is_throttled t st2 config_id ?rid)"
  proof (cases "0 < throttle_minutes rule")
    case True
    from assms(4) have "\<forall>(t, d) \<in> set msgs. t < ?e" by auto
    from consume_changes_window [OF run up1(1) mark [OF True] this] up1 f1
    show ?thesis by (auto simp: is_throttled_def)
  next
    case False
    have "msgs = []"
    proof (cases msgs)
      case (Cons m ms)
      obtain t d where "m = (t, d)" by (cases m)
      with assms(4) Cons have "t0 \<le> t" "t < ?e" by simp_all
      with False show ?thesis by simp
    qed simp
    with run have out: "out = []" and st2: "st2 = st1" by simp_all
    from create_alert_keeps_mark [OF assms(3) False] have same: "ae_throttle st1 = ae_throttle st" .
    have "\<not> is_throttled t st1 config_id ?rid" if "t0 \<le> t" for t
      using free0 that same f1 by (auto simp: is_throttled_def split: option.splits)
    with up1 f1 out st2 show ?thesis by (simp add: alerts_for_Nil)
  qed
  have after: "length (alerts_for config_id ?rid (fst (handle_change_detected matches t d st2))) = 1"
    if "t0 \<le> t" "?e \<le> t" "cd_config_id d = Some config_id" "config_id \<noteq> []"
      "truthy (cd_change_type d)" "map_of (ae_rules st) config_id = Some rules" "rule \<in> set rules"
      "distinct (map rule_id rules)" "rule_enabled rule" "matches rule (cd_change_details d)"
  proof -
    from window that(1,2) have free: "\<not> is_throttled t st2 config_id ?rid" by blast
    from window that(6) have rules: "get_alert_rules st2 config_id = rules"
      by (simp add: get_alert_rules_def)
    from that(3,4,5) rules
    have "handle_change_detected matches t d st2 =
        evaluate_rules matches t config_id (cd_change_details d) rules st2"
      by (simp add: handle_change_detected_def truthy_def get_or_def Let_def)
    with evaluate_rules_one [of st2 t config_id rule rules matches "cd_change_details d"]
      window free that(7-10)
    show ?thesis by simp
  qed
  from mark window after run show ?thesis by simp
qed

theorem throttle_window_witness:
  "map_of (ae_throttle (snd (create_alert 0 ''config-1'' example_rule example_change example_engine)))
     (''config-1'', ''rule-1'') = Some 3600
   \<and> alerts_for ''config-1'' ''rule-1''
       (fst (consume_changes (\<lambda>r c. True) ten_messages
          (snd (create_alert 0 ''config-1'' example_rule example_change example_engine)))) = []
   \<and> length (alerts_for ''config-1'' ''rule-1''
       (fst (handle_change_detected (\<lambda>r c. True) 3600 example_message
          (snd (consume_changes (\<lambda>r c. True) ten_messages
             (snd (create_alert 0 ''config-1'' example_rule example_change example_engine))))))) = 1"
proof -
  let ?st1 = "snd (create_alert 0 ''config-1'' example_rule example_change example_engine)"
  have up: "ae_redis_up example_engine" "ae_db_up example_engine" by code_simp+
  have "fst (create_alert 0 ''config-1'' example_rule example_change example_engine) \<noteq> None"
    by code_simp
  then obtain a where created:
    "create_alert 0 ''config-1'' example_rule example_change example_engine = (Some a, ?st1)"
    by (cases "create_alert 0 ''config-1'' example_rule example_change example_engine") auto
  have window: "\<forall>(t, d) \<in> set ten_messages. 0 \<le> t \<and> t < 0 + throttle_minutes example_rule * 60"
    by code_simp
  have later: "(0::int) \<le> 3600 \<and> 0 + throttle_minutes example_rule * 60 \<le> 3600
      \<and> cd_config_id example_message = Some ''config-1'' \<and> ''config-1'' \<noteq> []
      \<and> truthy (cd_change_type example_message)
      \<and> map_of (ae_rules example_engine) ''config-1'' = Some [other_rule, example_rule]
      \<and> example_rule \<in> set [other_rule, example_rule]
      \<and> distinct (map rule_id [other_rule, example_rule])
      \<and> rule_enabled example_rule \<and> (\<lambda>r c. True) example_rule (cd_change_details example_message)"
    by code_simp
  have minutes: "0 < throttle_minutes example_rule" "rule_id example_rule = ''rule-1''"
    "0 + throttle_minutes example_rule * 60 = 3600"
    by code_simp+
  from throttle_window [OF up created window, of "\<lambda>r c. True" 3600 example_message
      "[other_rule, example_rule]"] later minutes
  show ?thesis by simp
qed

section \<open>Partial notification success\<close>

lemma send_to_channels_effect:
  assumes "ae_db_up st"
  shows "fst (send_to_channels send a chans st) = map (\<lambda>cfg. send cfg a) (attempted_channels chans)
       \<and> ae_notifications (snd (send_to_channels send a chans st)) =
           ae_notifications st @ map (attempt_row send a) (attempted_channels chans)
       \<and> ae_alerts (snd (send_to_channels send a chans st)) = ae_alerts st
       \<and> ae_db_up (snd (send_to_channels send a chans st))"
  using assms
proof (induction chans arbitrary: st)
  case Nil
  then show ?case by (simp add: attempted_channels_def)
next
  case (Cons cfg chans)
  show ?case
  proof (cases "channel_type cfg")
    case None
    with Cons show ?thesis by (simp add: attempted_channels_def)
  next
    case (Some t)
    show ?thesis
    proof (cases "t \<in> set channel_handlers")
      case False
      with Some Cons show ?thesis by (simp add: attempted_channels_def)
    next
      case True
      let ?res = "send cfg a"
      let ?st1 = "log_notification_attempt (alert_id a) t cfg ?res st"
      let ?st2 = "?st1\<lparr>ae_metrics :=
                    (if result_status ?res = ''sent''
                     then (ae_metrics ?st1)\<lparr>em_notifications_sent := em_notifications_sent (ae_metrics ?st1) + 1\<rparr>
                     else (ae_metrics ?st1)\<lparr>em_notifications_failed := em_notifications_failed (ae_metrics ?st1) + 1\<rparr>)\<rparr>"
      have step: "send_to_channels send a (cfg # chans) st =
          (?res # fst (send_to_channels send a chans ?st2), snd (send_to_channels send a chans ?st2))"
        using Some True by (simp add: Let_def split: prod.splits)
      have st2: "ae_db_up ?st2" "ae_alerts ?st2 = ae_alerts st"
        "ae_notifications ?st2 = ae_notifications st @ [attempt_row send a cfg]"
        using Cons.prems Some by (simp_all add: log_notification_attempt_def attempt_row_def get_or_def)
      have att: "attempted_channels (cfg # chans) = cfg # attempted_channels chans"
        using Some True by (simp add: attempted_channels_def)
      from Cons.IH [OF st2(1)] st2 show ?thesis
        unfolding step att by simp
    qed
  qed
qed

text \<open>
  C5. With the store reachable, dispatching the notifications of an alert writes one
  attempt row per channel attempted, in order, each with the status of its own send; and
  if at least one of these sends succeeded, the alert's row is marked
  \<open>notification_sent\<close>, however many of the others failed.
\<close>

theorem partial_success_is_recorded:
  assumes "ae_db_up st"
  shows "ae_notifications (send_notifications send (Some a, chans) st) =
           ae_notifications st @ map (attempt_row send a) (attempted_channels chans)
       \<and> ((\<exists>cfg \<in> set (attempted_channels chans). result_status (send cfg a) = ''sent'') \<longrightarrow>
            ae_alerts (send_notifications send (Some a, chans) st) =
              map (\<lambda>row. if alert_id (row_alert row) = alert_id a
                          then row\<lparr>notification_sent := True,
                                   notification_attempts := notification_attempts row + 1\<rparr>
                          else row)
                  (ae_alerts st))"
proof -
  obtain results st1 where run: "send_to_channels send a chans st = (results, st1)"
    by (cases "send_to_channels send a chans st")
  from send_to_channels_effect [OF assms, of send a chans] run
  have results: "results = map (\<lambda>cfg. send cfg a) (attempted_channels chans)"
    and rows: "ae_notifications st1 = ae_notifications st @ map (attempt_row send a) (attempted_channels chans)"
    and alerts: "ae_alerts st1 = ae_alerts st" and up: "ae_db_up st1"
    by simp_all
  have sent: "list_ex (\<lambda>r. result_status r = ''sent'') results
      = (\<exists>cfg \<in> set (attempted_channels chans). result_status (send cfg a) = ''sent'')"
    unfolding results by (simp add: list_ex_iff)
  show ?thesis
    using run rows alerts up sent
    by (simp add: send_notifications_def update_alert_notification_status_def Let_def)
qed

theorem partial_success_is_recorded_witness:
  "map note_status (ae_notifications
       (send_notifications slack_only_succeeds (Some example_alert, [email_channel, slack_channel])
          engine_with_alert)) = [''failed'', ''sent'']
   \<and> map notification_sent (ae_alerts
       (send_notifications slack_only_succeeds (Some example_alert, [email_channel, slack_channel])
          engine_with_alert)) = [True]"
proof -
  have up: "ae_db_up engine_with_alert" by code_simp
  have one_sent: "\<exists>cfg \<in> set (attempted_channels [email_channel, slack_channel]).
      result_status (slack_only_succeeds cfg example_alert) = ''sent''"
    by code_simp
  have rows: "map note_status (ae_notifications engine_with_alert
        @ map (attempt_row slack_only_succeeds example_alert)
            (attempted_channels [email_channel, slack_channel])) = [''failed'', ''sent'']"
    by code_simp
  have marked: "map notification_sent
      (map (\<lambda>row. if alert_id (row_alert row) = alert_id example_alert
                   then row\<lparr>notification_sent := True,
                            notification_attempts := notification_attempts row + 1\<rparr>
                   else row)
           (ae_alerts engine_with_alert)) = [True]"
    by code_simp
  from partial_success_is_recorded [OF up, of slack_only_succeeds example_alert
      "[email_channel, slack_channel]"] one_sent rows marked
  show ?thesis by simp
qed

section \<open>The rate limiter is keyed on the network location\<close>




section \<open>The persisted next scan time\<close>

lemma trigger_scan_persists:
  assumes "is_allowed (t_check clk) (pl_limiter pl) (mc_url config) 5 = Some True"
    and "record_scan (t_record clk) (pl_limiter pl) (mc_url config) 5 = Some rl"
    and "pl_db_up pl" and "map_of (pl_active_configs pl) (mc_id config) = Some config"
    and "calculate_next_scan_time croniter_next (t_update clk) (mc_schedule config) = Some next_time"
  shows "map_of (pl_next_scan_at (trigger_scan croniter_next True clk config pl)) (mc_id config)
           = Some next_time"
  using assms by (simp add: trigger_scan_def update_scan_scheduled_def update_conv')

lemma interval_next_scan_time:
  "calculate_next_scan_time croniter_next now
     \<lparr>schedule_type = ''interval'', schedule_expression = e, schedule_timezone = tz,
      schedule_minutes = Some n\<rparr> = Some (now + n * 60)"
  by (simp add: calculate_next_scan_time_def get_or_def)





section \<open>Poison messages and failed publishes reach the dead-letter topic\<close>



end
